theory Spec2Isabelle
  imports Complex_Main "HOL-Library.AList" "HOL-Library.Sublist"
begin

section \<open>Configuration\<close>

text \<open>
  The constants of class \<open>Config\<close>. Times are integers counting microseconds (the
  resolution of \<open>datetime\<close>); \<open>SESSION_TIMEOUT\<close> is given in seconds, as in the source.
\<close>

definition MAX_SESSIONS :: nat where
  "MAX_SESSIONS = 100"

definition SESSION_TIMEOUT :: int where
  "SESSION_TIMEOUT = 1800"

definition MAX_FILES_PER_ORDER :: nat where
  "MAX_FILES_PER_ORDER = 5"

type_synonym datetime = int

definition timedelta_seconds :: "int \<Rightarrow> int" where
  "timedelta_seconds n = n * 1000000"

section \<open>Floating point\<close>

text \<open>
  A Python \<open>float\<close> is a binary double: a real number with a significand of 53 bits.
  A float is modelled by the real number it denotes, and every operation rounds its exact
  result to the nearest double, ties to the even significand. The range of the exponent
  is not modelled (no overflow, no subnormal numbers): the prices of this program lie
  between 16 and 50 times the number of pages.

  \<open>nbits n\<close> is the number of binary digits of a positive integer, \<open>exponent x\<close> the
  integer \<open>e\<close> with \<open>2^e \<le> x < 2^(e+1)\<close> for a positive \<open>x\<close>, and \<open>scale2 x k\<close> is
  \<open>x\<close> times \<open>2^k\<close>.
\<close>

function nbits :: "int \<Rightarrow> int" where
  "nbits n = (if n \<le> 0 then 0 else 1 + nbits (n div 2))"
  by pat_completeness auto
termination
  by (relation "measure nat") auto

declare nbits.simps [simp del]

definition exponent :: "real \<Rightarrow> int" where
  "exponent x = (if 1 \<le> x then nbits \<lfloor>x\<rfloor> - 1 else - nbits (\<lceil>1 / x\<rceil> - 1))"

definition round_half_even :: "real \<Rightarrow> int" where
  "round_half_even x =
     (let f = \<lfloor>x\<rfloor>; d = x - of_int f
      in if d < 1 / 2 then f else if 1 / 2 < d then f + 1 else if even f then f else f + 1)"

definition scale2 :: "real \<Rightarrow> int \<Rightarrow> real" where
  "scale2 x k = (if 0 \<le> k then x * 2 ^ nat k else x / 2 ^ nat (- k))"

definition float_round :: "real \<Rightarrow> real" where
  "float_round x =
     (if x = 0 then 0
      else (let e = exponent \<bar>x\<bar>
            in sgn x * scale2 (of_int (round_half_even (scale2 \<bar>x\<bar> (52 - e)))) (e - 52)))"

text \<open>
  A decimal literal of the source denotes the double nearest to it: \<open>float_lit m d\<close> is
  the literal whose digits are the integer \<open>m\<close> and whose value is \<open>m\<close> divided by the
  power of ten \<open>d\<close> (\<open>1.8\<close> is \<open>float_lit 18 10\<close>). The product of two floats is the
  rounded exact product; an \<open>int\<close> that meets a float in a product is first converted
  to the nearest double.
\<close>

definition float_lit :: "int \<Rightarrow> int \<Rightarrow> real" where
  "float_lit m d = float_round (of_int m / of_int d)"

definition fmul :: "real \<Rightarrow> real \<Rightarrow> real" where
  "fmul a b = float_round (a * b)"

definition float_of_int :: "int \<Rightarrow> real" where
  "float_of_int n = float_round (of_int n)"

section \<open>The catalog\<close>

text \<open>
  \<open>AcademicConfig.LEVELS\<close> and \<open>AcademicConfig.DEADLINES\<close>, with the float literals of
  the source. The display name, the emoji and the deadline label are text shown to the
  user only and are left out.
\<close>

record AcademicLevel =
  base_price :: real

definition LEVELS :: "string \<rightharpoonup> AcademicLevel" where
  "LEVELS = map_of
     [(''lycee'', \<lparr>base_price = float_lit 180 10\<rparr>),
      (''bachelor'', \<lparr>base_price = float_lit 220 10\<rparr>),
      (''master'', \<lparr>base_price = float_lit 260 10\<rparr>),
      (''phd'', \<lparr>base_price = float_lit 320 10\<rparr>)]"

definition DEADLINES :: "string \<rightharpoonup> real" where
  "DEADLINES = map_of
     [(''6h'', float_lit 18 10),
      (''12h'', float_lit 17 10),
      (''24h'', float_lit 15 10),
      (''48h'', float_lit 13 10),
      (''3d'', float_lit 12 10),
      (''7d'', float_lit 10 10),
      (''14d'', float_lit 9 10)]"

definition CRYPTO :: "string list" where
  "CRYPTO = [''BTC'', ''ETH'', ''USDT'']"

section \<open>Sessions\<close>

text \<open>
  The text of a message is a Python \<open>str\<close>: a list of Unicode code points. \<open>ascii\<close>
  gives the text of an ASCII string.
\<close>

type_synonym ustring = "nat list"

definition ascii :: "string \<Rightarrow> ustring" where
  "ascii s = map of_char s"

text \<open>
  \<open>UserSession.data\<close> is a dictionary that the program only ever writes under six keys,
  each with a value of one type: \<open>subject\<close> and \<open>instructions_text\<close> (the text of a
  message, a list of code points), \<open>level\<close> and \<open>deadline\<close> (the key cut out of the data
  of a button), \<open>pages\<close> (an integer) and \<open>final_price\<close> (a float). It is a record of
  options: \<open>None\<close> is an absent key. A dictionary passed to \<open>data.update\<close> is a list of
  key-value pairs; the empty list is the empty dictionary (and the default \<open>None\<close>).
\<close>

record order_data =
  subject :: "ustring option"
  level :: "string option"
  pages :: "int option"
  deadline :: "string option"
  instructions_text :: "ustring option"
  final_price :: "real option"

definition empty_data :: order_data where
  "empty_data = \<lparr>subject = None, level = None, pages = None, deadline = None,
     instructions_text = None, final_price = None\<rparr>"

datatype entry =
    Subject ustring
  | Level string
  | Pages int
  | Deadline string
  | Instructions ustring
  | FinalPrice real

fun set_entry :: "entry \<Rightarrow> order_data \<Rightarrow> order_data" where
  "set_entry (Subject v) d = d\<lparr>subject := Some v\<rparr>"
| "set_entry (Level v) d = d\<lparr>level := Some v\<rparr>"
| "set_entry (Pages v) d = d\<lparr>pages := Some v\<rparr>"
| "set_entry (Deadline v) d = d\<lparr>deadline := Some v\<rparr>"
| "set_entry (Instructions v) d = d\<lparr>instructions_text := Some v\<rparr>"
| "set_entry (FinalPrice v) d = d\<lparr>final_price := Some v\<rparr>"

definition dict_update :: "entry list \<Rightarrow> order_data \<Rightarrow> order_data" where
  "dict_update patch d = fold set_entry patch d"

record file_entry =
  file_id :: string
  file_name :: string
  file_size :: nat
  uploaded_at :: datetime

record UserSession =
  user_id :: int
  step :: string
  data :: order_data
  created_at :: datetime
  last_activity :: datetime
  files :: "file_entry list"

text \<open>
  \<open>UserSession.add_file\<close> mutates the session and returns a flag: the model returns the
  flag and the session after the call.
\<close>

definition add_file :: "datetime \<Rightarrow> string \<Rightarrow> string \<Rightarrow> nat \<Rightarrow> UserSession \<Rightarrow> bool \<times> UserSession" where
  "add_file now fid fname fsize s =
     (if length (files s) < MAX_FILES_PER_ORDER
      then (True, s\<lparr>files := files s @
              [\<lparr>file_id = fid, file_name = fname, file_size = fsize, uploaded_at = now\<rparr>]\<rparr>)
      else (False, s))"

section \<open>The session manager\<close>

text \<open>
  \<open>SessionManager.sessions\<close> is a dictionary from user ids to session objects. It is an
  association list in insertion order, so that \<open>len\<close> is the length of the list;
  assignment to a key is \<open>AList.update\<close> and \<open>del\<close> is \<open>AList.delete\<close>. A session object
  is only reachable through its key, so mutating the object is updating the entry.
  Every reading of \<open>datetime.now()\<close> is an argument \<open>now\<close>.
\<close>

type_synonym sessions = "(int \<times> UserSession) list"

definition expired :: "datetime \<Rightarrow> UserSession \<Rightarrow> bool" where
  "expired now s \<longleftrightarrow> now - last_activity s > timedelta_seconds SESSION_TIMEOUT"

definition cleanup_old_sessions :: "datetime \<Rightarrow> sessions \<Rightarrow> sessions" where
  "cleanup_old_sessions now st =
     fold AList.delete (map fst (filter (\<lambda>(uid, s). expired now s) st)) st"

definition get_session :: "datetime \<Rightarrow> int \<Rightarrow> sessions \<Rightarrow> UserSession option \<times> sessions" where
  "get_session now uid st =
     (let st1 = (if length st > MAX_SESSIONS then cleanup_old_sessions now st else st)
      in case map_of st1 uid of
           None \<Rightarrow> (None, st1)
         | Some s \<Rightarrow>
             (let s' = s\<lparr>last_activity := now\<rparr>
              in (Some s', AList.update uid s' st1)))"

text \<open>
  The constructor call of \<open>create_session\<close>: the data is the empty dictionary and
  \<open>files\<close> takes its default, the empty list.
\<close>

definition new_session :: "datetime \<Rightarrow> int \<Rightarrow> string \<Rightarrow> UserSession" where
  "new_session now uid stp =
     \<lparr>user_id = uid, step = stp, data = empty_data, created_at = now,
      last_activity = now, files = []\<rparr>"

definition create_session :: "datetime \<Rightarrow> int \<Rightarrow> string \<Rightarrow> sessions \<Rightarrow> UserSession \<times> sessions" where
  "create_session now uid stp st =
     (let session = new_session now uid stp
      in (session, AList.update uid session st))"

text \<open>
  \<open>update_session\<close>: \<open>step\<close> and \<open>data\<close> default to \<open>None\<close>; \<open>if step:\<close> is false for
  \<open>None\<close> and for the empty string, \<open>if data:\<close> is false for \<open>None\<close> and for the empty
  dictionary.
\<close>

definition update_session :: "datetime \<Rightarrow> int \<Rightarrow> string option \<Rightarrow> entry list \<Rightarrow> sessions \<Rightarrow> sessions" where
  "update_session now uid stp patch st =
     (let (found, st1) = get_session now uid st;
          (session, st2) = (case found of
                              Some s \<Rightarrow> (s, st1)
                            | None \<Rightarrow> create_session now uid ''menu'' st1);
          session1 = (case stp of
                        None \<Rightarrow> session
                      | Some v \<Rightarrow> if v \<noteq> [] then session\<lparr>step := v\<rparr> else session);
          session2 = (if patch \<noteq> [] then session1\<lparr>data := dict_update patch (data session1)\<rparr>
                      else session1);
          session3 = session2\<lparr>last_activity := now\<rparr>
      in AList.update uid session3 st2)"

text \<open>
  Two auxiliary notions for reasoning about these operations: the store after the
  automatic cleaning with which \<open>get_session\<close> begins, and what \<open>update_session\<close> does
  to the session object it has found or created.
\<close>

definition swept :: "datetime \<Rightarrow> sessions \<Rightarrow> sessions" where
  "swept now st = (if length st > MAX_SESSIONS then cleanup_old_sessions now st else st)"

definition session_update :: "datetime \<Rightarrow> string option \<Rightarrow> entry list \<Rightarrow> UserSession \<Rightarrow> UserSession" where
  "session_update now stp patch s =
     (let s1 = (case stp of None \<Rightarrow> s | Some v \<Rightarrow> if v \<noteq> [] then s\<lparr>step := v\<rparr> else s);
          s2 = (if patch \<noteq> [] then s1\<lparr>data := dict_update patch (data s1)\<rparr> else s1)
      in s2\<lparr>last_activity := now\<rparr>)"

definition calm :: "datetime \<Rightarrow> sessions \<Rightarrow> bool" where
  "calm now st \<longleftrightarrow> (length st > MAX_SESSIONS \<longrightarrow> (\<forall>(u, s) \<in> set st. \<not> expired now s))"

definition clear_session :: "int \<Rightarrow> sessions \<Rightarrow> sessions" where
  "clear_session uid st = AList.delete uid st"

section \<open>Pricing\<close>

text \<open>
  \<open>Utils.calculate_price\<close>. The level is an option because the caller passes
  \<open>session.data.get('level')\<close>, which is \<open>None\<close> when the key is absent, and
  \<open>LEVELS.get(None)\<close> is \<open>None\<close>. The products are taken from the left, as Python
  evaluates \<open>base_price * multiplier * pages\<close>.
\<close>

definition levels_get :: "string option \<Rightarrow> AcademicLevel option" where
  "levels_get k = (case k of None \<Rightarrow> None | Some l \<Rightarrow> LEVELS l)"

definition calculate_price :: "string option \<Rightarrow> string \<Rightarrow> int \<Rightarrow> real" where
  "calculate_price lvl dl pgs =
     (case levels_get lvl of
        None \<Rightarrow> float_lit 0 10
      | Some level_data \<Rightarrow>
          (let multiplier = (case DEADLINES dl of None \<Rightarrow> float_lit 10 10 | Some m \<Rightarrow> m);
               base = fmul (fmul (base_price level_data) multiplier) (float_of_int pgs)
           in min base (fmul (float_lit 500 10) (float_of_int pgs))))"

section \<open>Strings\<close>

text \<open>
  \<open>str.replace(old, "")\<close> for a non-empty \<open>old\<close>: every non-overlapping occurrence,
  scanning from the left, is removed (not only a leading one).
\<close>

function str_remove :: "string \<Rightarrow> string \<Rightarrow> string" where
  "str_remove old [] = []"
| "str_remove old (c # cs) =
     (if old \<noteq> [] \<and> prefix old (c # cs)
      then str_remove old (drop (length old) (c # cs))
      else c # str_remove old cs)"
  by pat_completeness auto
termination
  by (relation "measure (\<lambda>(old, s). length s)") (auto simp: neq_Nil_conv)

text \<open>
  Which code points above ASCII are white space, and which are decimal digits with
  which value, is recorded in the interpreter's Unicode tables; they are a parameter of
  the model. For
  ASCII the model fixes both: white space is the codes 9 to 13, 28 to 31 and 32, and the
  digits are the codes 48 to 57.
\<close>

record unicode_db =
  uni_isspace :: "nat \<Rightarrow> bool"
  uni_decimal :: "nat \<Rightarrow> nat option"

definition is_space :: "unicode_db \<Rightarrow> nat \<Rightarrow> bool" where
  "is_space u c \<longleftrightarrow>
     (if c < 128 then c \<in> {9, 10, 11, 12, 13, 28, 29, 30, 31, 32} else uni_isspace u c)"

text \<open>\<open>str.strip()\<close> removes the white space at both ends.\<close>

definition strip :: "unicode_db \<Rightarrow> ustring \<Rightarrow> ustring" where
  "strip u s = rev (dropWhile (is_space u) (rev (dropWhile (is_space u) s)))"

text \<open>
  \<open>int(s)\<close> for a \<open>str\<close>: every decimal digit stands for its value; the white space that
  \<open>int\<close> itself skips at both ends is the ASCII codes 9 to 13 and 32 and the white space
  above ASCII. Between them stands an optional sign \<open>+\<close> or \<open>-\<close> and then digits, where
  single underscores may separate digits. Anything else is \<open>ValueError\<close>, here \<open>None\<close>.
  The interpreter's limit on the number of digits is not modelled: a chat message has at
  most 4096 characters and does not reach it.
\<close>

definition int_space :: "unicode_db \<Rightarrow> nat \<Rightarrow> bool" where
  "int_space u c \<longleftrightarrow>
     (if c < 128 then c \<in> {9, 10, 11, 12, 13, 32} else uni_isspace u c)"

definition digit_val :: "unicode_db \<Rightarrow> nat \<Rightarrow> int option" where
  "digit_val u c =
     (if c < 128 then (if 48 \<le> c \<and> c \<le> 57 then Some (int c - 48) else None)
      else map_option int (uni_decimal u c))"

fun parse_digits :: "unicode_db \<Rightarrow> ustring \<Rightarrow> int \<Rightarrow> int option" where
  "parse_digits u [] acc = Some acc"
| "parse_digits u [c] acc =
     (case digit_val u c of Some v \<Rightarrow> Some (acc * 10 + v) | None \<Rightarrow> None)"
| "parse_digits u (c # d # ds) acc =
     (case digit_val u c of
        Some v \<Rightarrow> parse_digits u (d # ds) (acc * 10 + v)
      | None \<Rightarrow>
          if c = 95
          then (case digit_val u d of
                  Some w \<Rightarrow> parse_digits u ds (acc * 10 + w)
                | None \<Rightarrow> None)
          else None)"

definition parse_unsigned :: "unicode_db \<Rightarrow> ustring \<Rightarrow> int option" where
  "parse_unsigned u s =
     (case s of
        [] \<Rightarrow> None
      | c # cs \<Rightarrow>
          (case digit_val u c of Some v \<Rightarrow> parse_digits u cs v | None \<Rightarrow> None))"

definition py_int :: "unicode_db \<Rightarrow> ustring \<Rightarrow> int option" where
  "py_int u s =
     (case rev (dropWhile (int_space u) (rev (dropWhile (int_space u) s))) of
        [] \<Rightarrow> None
      | c # cs \<Rightarrow>
          if c = 45 then map_option uminus (parse_unsigned u cs)
          else if c = 43 then parse_unsigned u cs
          else parse_unsigned u (c # cs))"

text \<open>
  A part of the Unicode tables, for examples: all the white space above ASCII, and of
  the decimal digits above ASCII the Arabic-Indic ones.
\<close>

definition sample_db :: unicode_db where
  "sample_db =
     \<lparr>uni_isspace = (\<lambda>c. c \<in> {133, 160, 5760, 8232, 8233, 8239, 8287, 12288}
                          \<or> (8192 \<le> c \<and> c \<le> 8202)),
      uni_decimal = (\<lambda>c. if 1632 \<le> c \<and> c \<le> 1641 then Some (c - 1632) else None)\<rparr>"

text \<open>\<open>str(n)\<close> for a natural number, used in the name given to an uploaded photo.\<close>

fun str_nat :: "nat \<Rightarrow> string" where
  "str_nat n =
     (if n < 10 then [char_of (48 + n)]
      else str_nat (n div 10) @ [char_of (48 + n mod 10)])"

section \<open>Handlers\<close>

text \<open>
  A handler takes the session store and returns what it sends back together with the
  store it leaves. The texts sent are represented by a tag and the values printed in
  them. An exception that leaves a handler is a value \<open>Inl\<close>; the store returned with it is
  the store at the moment of the raise, since nothing is rolled back.

  One event is handled without interruption between its session operations, and the
  clock readings taken meanwhile are treated as one reading \<open>now\<close>.
  The transport is outside the model: a send is taken to succeed, except in the two
  handlers that change the store after a send (\<open>send_payment_info\<close> and
  \<open>handle_support_message\<close>), which take a flag \<open>delivered\<close> for the outcome of that send.
\<close>

datatype error = KeyError | AttributeError | TransportError

datatype reply =
    Welcome
  | MainMenu
  | PricingGrid
  | Information
  | OrderStep1
  | OrderStep2 ustring
  | OrderStep3 real
  | OrderStep4 int
  | OrderStep5
  | OrderStep6
  | SupportPrompt
  | OrderSummary "ustring option" string "int option" string ustring nat real
  | SessionExpired
  | CryptoChoice
  | PaymentInfo string real
  | TemporaryError
  | NavigationLost
  | IncorrectFormat
  | SupportSent
  | SupportSendError
  | UnexpectedFile
  | LimitReached
  | UnsupportedFileType
  | FileTooLarge
  | FileAdded string nat nat
  | ReplyUsage
  | ReplySent int
  | InvalidUserId
  | NoReply

definition main_menu :: "int \<Rightarrow> sessions \<Rightarrow> reply \<times> sessions" where
  "main_menu uid st = (MainMenu, clear_session uid st)"

definition start_order_flow :: "datetime \<Rightarrow> int \<Rightarrow> sessions \<Rightarrow> reply \<times> sessions" where
  "start_order_flow now uid st = (OrderStep1, snd (create_session now uid ''order_subject'' st))"

definition support_interface :: "datetime \<Rightarrow> int \<Rightarrow> sessions \<Rightarrow> reply \<times> sessions" where
  "support_interface now uid st = (SupportPrompt, update_session now uid (Some ''support'') [] st)"

text \<open>
  \<open>handle_level_selection\<close> updates the session first and then reads
  \<open>AcademicConfig.LEVELS[level_key]\<close>, which raises \<open>KeyError\<close> for a key that is not in
  the catalog.
\<close>

definition handle_level_selection :: "datetime \<Rightarrow> int \<Rightarrow> string \<Rightarrow> sessions \<Rightarrow> (error + reply) \<times> sessions" where
  "handle_level_selection now uid cb st =
     (let level_key = str_remove ''level_'' cb;
          st1 = update_session now uid (Some ''order_pages'') [Level level_key] st
      in case LEVELS level_key of
           None \<Rightarrow> (Inl KeyError, st1)
         | Some lv \<Rightarrow> (Inr (OrderStep3 (base_price lv)), st1))"

text \<open>
  \<open>handle_deadline_selection\<close>: the variable \<open>session\<close> holds the object returned by
  \<open>get_session\<close>, which is the object stored under the user's id and the one that
  \<open>update_session\<close> then changes; \<open>session.data\<close> is therefore read from the store after
  the update. When \<open>get_session\<close> returned \<open>None\<close>, \<open>update_session\<close> has created a
  session and \<open>session.data\<close> raises \<open>AttributeError\<close>. After \<open>update_session\<close> the
  store always has an entry for the user, so the inner \<open>None\<close> case is never taken.
\<close>

definition handle_deadline_selection :: "datetime \<Rightarrow> int \<Rightarrow> string \<Rightarrow> sessions \<Rightarrow> (error + reply) \<times> sessions" where
  "handle_deadline_selection now uid cb st =
     (let deadline_key = str_remove ''deadline_'' cb;
          (session, st1) = get_session now uid st;
          st2 = update_session now uid (Some ''order_instructions'') [Deadline deadline_key] st1
      in case session of
           None \<Rightarrow> (Inl AttributeError, st2)
         | Some _ \<Rightarrow>
             (case map_of st2 uid of
                None \<Rightarrow> (Inl AttributeError, st2)
              | Some s \<Rightarrow>
                  (let price = calculate_price (level (data s)) deadline_key
                                 (case pages (data s) of None \<Rightarrow> 1 | Some n \<Rightarrow> n);
                       st3 = update_session now uid None [FinalPrice price] st2
                   in (Inr OrderStep5, st3))))"

text \<open>
  \<open>display_order_summary\<close>: \<open>LEVELS[...]\<close> and \<open>DEADLINES[...]\<close> raise \<open>KeyError\<close> for a
  missing key, also for \<open>None\<close>. The summary carries the values printed: the subject
  (\<open>None\<close> for the default text), the level key, the pages, the deadline key, the first
  50 characters of the instructions (the default is the word Aucune), the number of
  files and the price, which is \<open>session.data.get('final_price', 0)\<close>.
\<close>

definition stored_price :: "UserSession \<Rightarrow> real" where
  "stored_price s = (case final_price (data s) of None \<Rightarrow> 0 | Some p \<Rightarrow> p)"

definition display_order_summary :: "datetime \<Rightarrow> int \<Rightarrow> sessions \<Rightarrow> (error + reply) \<times> sessions" where
  "display_order_summary now uid st =
     (let (session, st1) = get_session now uid st
      in case session of
           None \<Rightarrow> (Inr SessionExpired, st1)
         | Some s \<Rightarrow>
             (case level (data s) of
                None \<Rightarrow> (Inl KeyError, st1)
              | Some lk \<Rightarrow>
                  (case LEVELS lk of
                     None \<Rightarrow> (Inl KeyError, st1)
                   | Some _ \<Rightarrow>
                       (case deadline (data s) of
                          None \<Rightarrow> (Inl KeyError, st1)
                        | Some dk \<Rightarrow>
                            (case DEADLINES dk of
                               None \<Rightarrow> (Inl KeyError, st1)
                             | Some _ \<Rightarrow>
                                 (Inr (OrderSummary (subject (data s)) lk (pages (data s)) dk
                                        (take 50 (case instructions_text (data s) of
                                                    None \<Rightarrow> ascii ''Aucune'' | Some t \<Rightarrow> t))
                                        (length (files s)) (stored_price s)), st1))))))"

text \<open>
  \<open>send_payment_info\<close>: the notification to the administrator reads the session and
  catches its own exceptions, so it has no part in the result. The session is cleared
  only after the payment text has been sent.
\<close>

definition send_payment_info :: "bool \<Rightarrow> datetime \<Rightarrow> int \<Rightarrow> string \<Rightarrow> sessions \<Rightarrow> (error + reply) \<times> sessions" where
  "send_payment_info delivered now uid payment_type st =
     (let (session, st1) = get_session now uid st
      in case session of
           None \<Rightarrow> (Inr NoReply, st1)
         | Some s \<Rightarrow>
             if payment_type \<noteq> ''transfer'' \<and> payment_type \<notin> set CRYPTO
             then (Inl KeyError, st1)
             else if \<not> delivered then (Inl TransportError, st1)
             else (Inr (PaymentInfo payment_type (stored_price s)), clear_session uid st1))"

definition handle_payment_transfer :: "bool \<Rightarrow> datetime \<Rightarrow> int \<Rightarrow> sessions \<Rightarrow> (error + reply) \<times> sessions" where
  "handle_payment_transfer delivered now uid st = send_payment_info delivered now uid ''transfer'' st"

definition handle_crypto_selection :: "bool \<Rightarrow> datetime \<Rightarrow> int \<Rightarrow> string \<Rightarrow> sessions \<Rightarrow> (error + reply) \<times> sessions" where
  "handle_crypto_selection delivered now uid cb st =
     send_payment_info delivered now uid (str_remove ''crypto_'' cb) st"

text \<open>
  \<open>button_handler\<close>: the chain of comparisons in the order of the source; a callback
  that matches none of them (such as \<open>payment_done\<close>) does nothing. An exception of a
  handler is caught and answered with the temporary-error text.
\<close>

definition route_button :: "bool \<Rightarrow> datetime \<Rightarrow> int \<Rightarrow> string \<Rightarrow> sessions \<Rightarrow> (error + reply) \<times> sessions" where
  "route_button delivered now uid cb st =
     (if cb = ''menu'' then (case main_menu uid st of (r, st') \<Rightarrow> (Inr r, st'))
      else if cb = ''back'' then (case main_menu uid st of (r, st') \<Rightarrow> (Inr r, st'))
      else if cb = ''new_order'' then (case start_order_flow now uid st of (r, st') \<Rightarrow> (Inr r, st'))
      else if cb = ''pricing'' then (Inr PricingGrid, st)
      else if cb = ''info'' then (Inr Information, st)
      else if cb = ''support'' then (case support_interface now uid st of (r, st') \<Rightarrow> (Inr r, st'))
      else if prefix ''level_'' cb then handle_level_selection now uid cb st
      else if prefix ''deadline_'' cb then handle_deadline_selection now uid cb st
      else if cb = ''order_summary'' then display_order_summary now uid st
      else if cb = ''payment_transfer'' then handle_payment_transfer delivered now uid st
      else if cb = ''payment_crypto'' then (Inr CryptoChoice, st)
      else if prefix ''crypto_'' cb then handle_crypto_selection delivered now uid cb st
      else if cb = ''skip_files'' then display_order_summary now uid st
      else (Inr NoReply, st))"

definition button_handler :: "bool \<Rightarrow> datetime \<Rightarrow> int \<Rightarrow> string \<Rightarrow> sessions \<Rightarrow> reply \<times> sessions" where
  "button_handler delivered now uid cb st =
     (case route_button delivered now uid cb st of
        (Inr r, st') \<Rightarrow> (r, st')
      | (Inl e, st') \<Rightarrow> (TemporaryError, st'))"

definition handle_support_message :: "bool \<Rightarrow> int \<Rightarrow> sessions \<Rightarrow> reply \<times> sessions" where
  "handle_support_message delivered uid st =
     (if delivered then (SupportSent, clear_session uid st) else (SupportSendError, st))"

text \<open>
  \<open>text_handler\<close>: in step \<open>order_pages\<close> the \<open>ValueError\<close> of \<open>int\<close> and the one raised
  for a number outside 1..50 are caught by the same clause, before any update.
\<close>

definition text_handler :: "unicode_db \<Rightarrow> bool \<Rightarrow> datetime \<Rightarrow> int \<Rightarrow> ustring \<Rightarrow> sessions \<Rightarrow> reply \<times> sessions" where
  "text_handler u delivered now uid message_text st =
     (let (session, st1) = get_session now uid st
      in case session of
           None \<Rightarrow> (NavigationLost, st1)
         | Some s \<Rightarrow>
             if step s = ''order_subject''
             then (OrderStep2 message_text,
                   update_session now uid (Some ''order_level'') [Subject message_text] st1)
             else if step s = ''order_pages''
             then (case py_int u (strip u message_text) of
                     None \<Rightarrow> (IncorrectFormat, st1)
                   | Some n \<Rightarrow>
                       if n \<le> 0 \<or> n > 50 then (IncorrectFormat, st1)
                       else (OrderStep4 n,
                             update_session now uid (Some ''order_deadline'') [Pages n] st1))
             else if step s = ''order_instructions''
             then (OrderStep6,
                   update_session now uid (Some ''order_files'') [Instructions message_text] st1)
             else if step s = ''support'' then handle_support_message delivered uid st1
             else (NoReply, st1))"

text \<open>
  \<open>file_handler\<close>. A message carries a document, or a list of photo sizes of which the
  last is taken, or neither. \<open>x or d\<close> is \<open>d\<close> when \<open>x\<close> is \<open>None\<close>, zero or empty.
\<close>

record document =
  doc_id :: string
  doc_name :: "string option"
  doc_size :: "nat option"

record photo_size =
  photo_id :: string
  photo_bytes :: "nat option"

record file_message =
  msg_document :: "document option"
  msg_photo :: "photo_size list"

definition or_default :: "nat option \<Rightarrow> nat" where
  "or_default x = (case x of None \<Rightarrow> 0 | Some n \<Rightarrow> n)"

definition store_file :: "datetime \<Rightarrow> int \<Rightarrow> UserSession \<Rightarrow> string \<Rightarrow> string \<Rightarrow> nat \<Rightarrow> sessions \<Rightarrow> reply \<times> sessions" where
  "store_file now uid s fid fname fsize st =
     (if fsize > 20 * 1024 * 1024 then (FileTooLarge, st)
      else (case add_file now fid fname fsize s of
              (added, s') \<Rightarrow>
                if added then (FileAdded fname fsize (length (files s')), AList.update uid s' st)
                else (NoReply, AList.update uid s' st)))"

definition file_handler :: "datetime \<Rightarrow> int \<Rightarrow> file_message \<Rightarrow> sessions \<Rightarrow> reply \<times> sessions" where
  "file_handler now uid msg st =
     (let (session, st1) = get_session now uid st
      in case session of
           None \<Rightarrow> (UnexpectedFile, st1)
         | Some s \<Rightarrow>
             if step s \<noteq> ''order_files'' then (UnexpectedFile, st1)
             else if length (files s) \<ge> MAX_FILES_PER_ORDER then (LimitReached, st1)
             else (case msg_document msg of
                     Some d \<Rightarrow>
                       store_file now uid s (doc_id d)
                         (case doc_name d of
                            None \<Rightarrow> ''document''
                          | Some n \<Rightarrow> if n = [] then ''document'' else n)
                         (or_default (doc_size d)) st1
                   | None \<Rightarrow>
                       if msg_photo msg \<noteq> []
                       then store_file now uid s (photo_id (last (msg_photo msg)))
                              (''image_'' @ str_nat (length (files s) + 1) @ ''.jpg'')
                              (or_default (photo_bytes (last (msg_photo msg)))) st1
                       else (UnsupportedFileType, st1)))"

text \<open>
  \<open>admin_reply\<close> relays a message of the administrator; it does not use the session
  store. \<open>Config.ADMIN_ID\<close> comes from the environment and is a parameter.
\<close>

definition admin_reply :: "unicode_db \<Rightarrow> int \<Rightarrow> int \<Rightarrow> ustring list \<Rightarrow> reply" where
  "admin_reply u admin_id uid args =
     (if uid \<noteq> admin_id then NoReply
      else if length args < 2 then ReplyUsage
      else (case py_int u (hd args) of
              None \<Rightarrow> InvalidUserId
            | Some target \<Rightarrow> ReplySent target))"

section \<open>Events\<close>

datatype event =
    CmdStart
  | CmdMenu
  | CmdReply "ustring list"
  | Button string
  | TextMessage ustring
  | FileMessage file_message

definition handle_event :: "unicode_db \<Rightarrow> int \<Rightarrow> bool \<Rightarrow> datetime \<Rightarrow> int \<Rightarrow> event \<Rightarrow> sessions \<Rightarrow> reply \<times> sessions" where
  "handle_event u admin_id delivered now uid ev st =
     (case ev of
        CmdStart \<Rightarrow> (Welcome, st)
      | CmdMenu \<Rightarrow> main_menu uid st
      | CmdReply args \<Rightarrow> (admin_reply u admin_id uid args, st)
      | Button cb \<Rightarrow> button_handler delivered now uid cb st
      | TextMessage t \<Rightarrow> text_handler u delivered now uid t st
      | FileMessage m \<Rightarrow> file_handler now uid m st)"

text \<open>
  A store above the capacity, for the cases where the sweep runs: the users 0 to 100,
  each with a session created at time \<open>t\<close>.
\<close>

definition crowded :: "datetime \<Rightarrow> sessions" where
  "crowded t = map (\<lambda>k. (k, new_session t k ''menu'')) [0..100]"



section \<open>Properties of stores\<close>

text \<open>
  The bound on the files of every session; and two relations between the store before
  an operation and the store after it: every session after it has the \<open>final_price\<close>
  of a session of the same user before it, or (in the second relation) has none.
\<close>

definition files_bounded :: "sessions \<Rightarrow> bool" where
  "files_bounded st \<longleftrightarrow> (\<forall>(u, s) \<in> set st. length (files s) \<le> MAX_FILES_PER_ORDER)"

definition price_same :: "sessions \<Rightarrow> sessions \<Rightarrow> bool" where
  "price_same st st' \<longleftrightarrow>
     (\<forall>(u, s') \<in> set st'. \<exists>s. (u, s) \<in> set st \<and> final_price (data s') = final_price (data s))"

definition price_kept :: "sessions \<Rightarrow> sessions \<Rightarrow> bool" where
  "price_kept st st' \<longleftrightarrow>
     (\<forall>(u, s') \<in> set st'.
        (\<exists>s. (u, s) \<in> set st \<and> final_price (data s') = final_price (data s))
        \<or> final_price (data s') = None)"

text \<open>The stores the program can reach from the empty store it starts with.\<close>

inductive reachable :: "sessions \<Rightarrow> bool" where
  reachable_init: "reachable []"
| reachable_step: "reachable st \<Longrightarrow> reachable (snd (handle_event u admin_id delivered now uid ev st))"

text \<open>
  Events handled one after the other, each with its clock reading and its user, and a
  run of one user through the whole order flow who then sends six documents.
\<close>

fun run_events :: "int \<Rightarrow> (datetime \<times> int \<times> event) list \<Rightarrow> sessions \<Rightarrow> sessions" where
  "run_events admin_id [] st = st"
| "run_events admin_id ((now, uid, ev) # es) st =
     run_events admin_id es (snd (handle_event sample_db admin_id True now uid ev st))"

definition document_message :: "string \<Rightarrow> event" where
  "document_message n =
     FileMessage \<lparr>msg_document = Some \<lparr>doc_id = n, doc_name = Some n, doc_size = Some 1000\<rparr>,
                  msg_photo = []\<rparr>"

definition upload_trace :: "(datetime \<times> int \<times> event) list" where
  "upload_trace =
     [(1, 7, Button ''new_order''), (2, 7, TextMessage (ascii ''Essay'')),
      (3, 7, Button ''level_bachelor''), (4, 7, TextMessage (ascii ''2'')),
      (5, 7, Button ''deadline_24h''), (6, 7, TextMessage (ascii ''aucune'')),
      (7, 7, document_message ''a''), (8, 7, document_message ''b''),
      (9, 7, document_message ''c''), (10, 7, document_message ''d''),
      (11, 7, document_message ''e''), (12, 7, document_message ''f'')]"

section \<open>Facts about the session store\<close>

lemma fold_delete_filter:
  "fold AList.delete ks al = filter (\<lambda>(k, v). k \<notin> set ks) al"
proof (induction ks arbitrary: al)
  case Nil
  show ?case by simp
next
  case (Cons k ks)
  have "fold AList.delete (k # ks) al = filter (\<lambda>(k', v). k' \<notin> set ks) (AList.delete k al)"
    using Cons.IH by simp
  also have "\<dots> = filter (\<lambda>(k', v). k' \<notin> set (k # ks)) al"
    by (auto simp: AList.delete_eq intro: filter_cong)
  finally show ?case .
qed

lemma cleanup_filter:
  assumes "distinct (map fst st)"
  shows "cleanup_old_sessions now st = filter (\<lambda>(uid, s). \<not> expired now s) st"
proof -
  have "(k \<notin> fst ` {x \<in> set st. case x of (uid, s) \<Rightarrow> expired now s}) = (\<not> expired now v)"
    if "(k, v) \<in> set st" for k v
    using that assms by (force dest: eq_key_imp_eq_value)
  then show ?thesis
    unfolding cleanup_old_sessions_def fold_delete_filter
    by (auto intro!: filter_cong)
qed

lemma cleanup_subset: "set (cleanup_old_sessions now st) \<subseteq> set st"
  by (auto simp: cleanup_old_sessions_def fold_delete_filter)

lemma cleanup_distinct: "distinct (map fst st) \<Longrightarrow> distinct (map fst (cleanup_old_sessions now st))"
  by (simp add: cleanup_old_sessions_def fold_delete_filter distinct_map_filter)

lemma map_of_cleanup:
  assumes "distinct (map fst st)"
  shows "map_of (cleanup_old_sessions now st) u =
         (case map_of st u of None \<Rightarrow> None | Some s \<Rightarrow> if expired now s then None else Some s)"
proof (cases "map_of st u")
  case None
  then have "u \<notin> fst ` set st" by (simp add: map_of_eq_None_iff)
  then have "u \<notin> fst ` set (cleanup_old_sessions now st)"
    using cleanup_subset by fastforce
  then have "map_of (cleanup_old_sessions now st) u = None"
    by (simp add: map_of_eq_None_iff)
  then show ?thesis using None by simp
next
  case (Some s)
  then have mem: "(u, s) \<in> set st" by (rule map_of_SomeD)
  show ?thesis
  proof (cases "expired now s")
    case True
    have "u \<notin> fst ` set (cleanup_old_sessions now st)"
    proof
      assume "u \<in> fst ` set (cleanup_old_sessions now st)"
      then obtain s' where s': "(u, s') \<in> set (cleanup_old_sessions now st)" by auto
      then have "(u, s') \<in> set st" using cleanup_subset by blast
      then have "s' = s" using mem assms by (meson eq_key_imp_eq_value)
      then show False using s' True by (simp add: cleanup_filter [OF assms])
    qed
    then have "map_of (cleanup_old_sessions now st) u = None"
      by (simp add: map_of_eq_None_iff)
    then show ?thesis using Some True by simp
  next
    case False
    then have "(u, s) \<in> set (cleanup_old_sessions now st)"
      using mem by (simp add: cleanup_filter [OF assms])
    then have "map_of (cleanup_old_sessions now st) u = Some s"
      using cleanup_distinct [OF assms] by simp
    then show ?thesis using Some False by simp
  qed
qed

lemma length_crowded: "length (crowded t) = 101"
  by (simp add: crowded_def)

lemma distinct_crowded: "distinct (map fst (crowded t))"
  by (simp add: crowded_def comp_def)

lemma map_of_crowded:
  "map_of (crowded t) u = (if 0 \<le> u \<and> u \<le> 100 then Some (new_session t u ''menu'') else None)"
  by (simp add: crowded_def map_of_map_restrict restrict_map_def)

lemma new_session_sel [simp]:
  "user_id (new_session t u p) = u" "step (new_session t u p) = p"
  "data (new_session t u p) = empty_data" "created_at (new_session t u p) = t"
  "last_activity (new_session t u p) = t" "files (new_session t u p) = []"
  by (simp_all add: new_session_def)

lemma expired_iff: "expired now s \<longleftrightarrow> now - last_activity s > 1800000000"
  by (simp add: expired_def timedelta_seconds_def SESSION_TIMEOUT_def)

lemma get_session_swept:
  "get_session now uid st =
     (case map_of (swept now st) uid of
        None \<Rightarrow> (None, swept now st)
      | Some s \<Rightarrow> (Some (s\<lparr>last_activity := now\<rparr>),
                   AList.update uid (s\<lparr>last_activity := now\<rparr>) (swept now st)))"
  by (simp add: get_session_def swept_def Let_def split: option.splits)

lemma update_session_swept:
  "update_session now uid stp patch st =
     AList.update uid
       (session_update now stp patch
          (case map_of (swept now st) uid of
             None \<Rightarrow> new_session now uid ''menu''
           | Some s \<Rightarrow> s))
       (swept now st)"
  by (cases "map_of (swept now st) uid")
     (auto simp: update_session_def get_session_swept create_session_def session_update_def
        Let_def new_session_def split: option.splits)

lemma cleanup_id_iff:
  "cleanup_old_sessions now st = st \<longleftrightarrow> (\<forall>(u, s) \<in> set st. \<not> expired now s)"
  unfolding cleanup_old_sessions_def fold_delete_filter filter_id_conv
  by force

lemma calm_swept_id: "calm now st \<Longrightarrow> swept now st = st"
  by (simp add: calm_def swept_def cleanup_id_iff)

lemma cleanup_no_expired:
  "(u, s) \<in> set (cleanup_old_sessions now st) \<Longrightarrow> \<not> expired now s"
  unfolding cleanup_old_sessions_def fold_delete_filter by force

lemma calm_swept: "calm now (swept now st)"
  using cleanup_no_expired length_delete_le
  by (auto simp: calm_def swept_def)

lemma swept_subset: "set (swept now st) \<subseteq> set st"
  using cleanup_subset by (simp add: swept_def)

lemma swept_distinct: "distinct (map fst st) \<Longrightarrow> distinct (map fst (swept now st))"
  by (simp add: swept_def cleanup_distinct)

lemma set_update_subset: "set (AList.update k v al) \<subseteq> insert (k, v) (set al)"
  by (induction al) auto

lemma set_delete_subset: "set (AList.delete k al) \<subseteq> set al"
  by (auto simp: AList.delete_eq)

lemma length_update_present:
  "map_of al k = Some v \<Longrightarrow> length (AList.update k v' al) = length al"
  by (induction al) (auto split: if_splits)

lemma calm_update:
  "calm now st \<Longrightarrow> map_of st uid = Some s \<Longrightarrow> \<not> expired now s' \<Longrightarrow>
   calm now (AList.update uid s' st)"
  using set_update_subset [of uid s' st]
  by (auto simp: calm_def length_update_present)

lemma not_expired_now: "last_activity s = now \<Longrightarrow> \<not> expired now s"
  by (simp add: expired_iff)

lemma get_session_SomeD:
  assumes "get_session now uid st = (Some s, st1)"
  shows "map_of st1 uid = Some s" and "last_activity s = now" and "calm now st1"
    and "\<exists>s0. map_of (swept now st) uid = Some s0 \<and> s = s0\<lparr>last_activity := now\<rparr>
           \<and> st1 = AList.update uid s (swept now st)"
proof -
  from assms obtain s0 where s0: "map_of (swept now st) uid = Some s0"
    and s: "s = s0\<lparr>last_activity := now\<rparr>" and st1: "st1 = AList.update uid s (swept now st)"
    by (auto simp: get_session_swept split: option.splits)
  show "map_of st1 uid = Some s" by (simp add: st1 update_conv')
  show "last_activity s = now" by (simp add: s)
  show "calm now st1"
    unfolding st1 using calm_swept s0 by (rule calm_update) (simp add: s expired_iff)
  show "\<exists>s0. map_of (swept now st) uid = Some s0 \<and> s = s0\<lparr>last_activity := now\<rparr>
           \<and> st1 = AList.update uid s (swept now st)"
    using s0 s st1 by blast
qed

lemma update_session_calm:
  "calm now st \<Longrightarrow> map_of st uid = Some s \<Longrightarrow>
   update_session now uid stp patch st = AList.update uid (session_update now stp patch s) st"
  by (simp add: update_session_swept calm_swept_id)

lemma session_update_sel [simp]:
  "last_activity (session_update now stp patch s) = now"
  "files (session_update now stp patch s) = files s"
  "user_id (session_update now stp patch s) = user_id s"
  "created_at (session_update now stp patch s) = created_at s"
  by (auto simp: session_update_def Let_def split: option.splits)

lemma session_update_step:
  "step (session_update now stp patch s) = (case stp of None \<Rightarrow> step s | Some v \<Rightarrow> if v \<noteq> [] then v else step s)"
  by (auto simp: session_update_def Let_def split: option.splits)

lemma session_update_data:
  "data (session_update now stp patch s) = dict_update patch (data s)"
  by (auto simp: session_update_def Let_def dict_update_def split: option.splits)

section \<open>Facts about floating point\<close>

lemmas float_defs = float_round_def exponent_def round_half_even_def fmul_def float_lit_def
  float_of_int_def Let_def scale2_def nbits.simps

lemma nbits_unfold: "0 < n \<Longrightarrow> nbits n = 1 + nbits (n div 2)"
  by (subst nbits.simps) simp

lemma nbits_nonneg: "0 \<le> nbits n"
proof (induction n rule: nbits.induct)
  case (1 n)
  show ?case
  proof (cases "n \<le> 0")
    case True
    then show ?thesis by (subst nbits.simps) simp
  next
    case False
    then show ?thesis using "1.IH" by (simp add: nbits_unfold)
  qed
qed

lemma nbits_pos: "0 < n \<Longrightarrow> 0 < nbits n"
  using nbits_nonneg [of "n div 2"] by (simp add: nbits_unfold)

lemma nbits_bounds:
  "0 < n \<Longrightarrow> 2 ^ nat (nbits n - 1) \<le> n \<and> n < 2 ^ nat (nbits n)"
proof (induction n rule: nbits.induct)
  case (1 n)
  show ?case
  proof (cases "n = 1")
    case True
    have "nbits (1 div 2) = 0" by (subst nbits.simps) simp
    then show ?thesis using True by (simp add: nbits_unfold)
  next
    case False
    with "1.prems" have h: "0 < n div 2" by simp
    have ih: "2 ^ nat (nbits (n div 2) - 1) \<le> n div 2 \<and> n div 2 < 2 ^ nat (nbits (n div 2))"
      using "1.IH" "1.prems" h by simp
    have e: "nbits n = 1 + nbits (n div 2)"
      using "1.prems" by (rule nbits_unfold)
    have p: "0 < nbits (n div 2)" using h by (rule nbits_pos)
    have n1: "nat (nbits n - 1) = Suc (nat (nbits (n div 2) - 1))"
      using e p by simp
    have n2: "nat (nbits n) = Suc (nat (nbits (n div 2)))"
      using e p by simp
    from ih have a: "2 * 2 ^ nat (nbits (n div 2) - 1) \<le> n" by linarith
    from ih have "n div 2 + 1 \<le> 2 ^ nat (nbits (n div 2))" by simp
    then have b: "n < 2 * 2 ^ nat (nbits (n div 2))" by linarith
    show ?thesis
      unfolding n1 n2 using a b by simp
  qed
qed


lemma round_half_even_int [simp]: "round_half_even (of_int k) = k"
  by (simp add: round_half_even_def)

lemma float_round_nat_exact:
  assumes "0 < n" and "n < 2 ^ 53"
  shows "float_round (of_int n) = of_int n"
proof -
  let ?e = "nbits n - 1"
  have b: "2 ^ nat ?e \<le> n" "n < 2 ^ nat (nbits n)" using nbits_bounds [OF assms(1)] by simp_all
  have p: "0 < nbits n" using assms(1) by (rule nbits_pos)
  have lt: "(2::int) ^ nat ?e < 2 ^ 53" using b(1) assms(2) by linarith
  have "nat ?e < 53" by (rule power_less_imp_less_exp [OF _ lt]) simp
  then have le: "?e \<le> 52" by simp
  have ex: "exponent \<bar>of_int n\<bar> = ?e"
    using assms(1) by (simp add: exponent_def)
  have sc: "scale2 \<bar>of_int n\<bar> (52 - ?e) = of_int (n * 2 ^ nat (52 - ?e))"
    using assms(1) le by (simp add: scale2_def)
  have bk: "scale2 (of_int (n * 2 ^ nat (52 - ?e))) (?e - 52) = of_int n"
  proof (cases "?e = 52")
    case True
    then show ?thesis by (simp add: scale2_def)
  next
    case False
    with le have "?e - 52 < 0" by simp
    moreover have "nat (- (?e - 52)) = nat (52 - ?e)" by simp
    ultimately show ?thesis by (simp add: scale2_def)
  qed
  have nz: "(of_int n :: real) \<noteq> 0" using assms(1) by simp
  have sg: "sgn (of_int n :: real) = 1" using assms(1) by simp
  show ?thesis
    unfolding float_round_def Let_def ex sc round_half_even_int bk using nz sg by simp
qed

lemma float_round_neg: "float_round (- x) = - float_round x"
  by (simp add: float_round_def Let_def sgn_minus)

lemma float_round_int_exact:
  assumes "\<bar>n\<bar> < 2 ^ 53"
  shows "float_round (of_int n) = of_int n"
proof (cases "n = 0")
  case True
  then show ?thesis by (simp add: float_round_def)
next
  case False
  show ?thesis
  proof (cases "0 < n")
    case True
    then show ?thesis using assms by (simp add: float_round_nat_exact)
  next
    case f: False
    with False have "0 < - n" "- n < 2 ^ 53" using assms by simp_all
    then have "float_round (of_int (- n)) = of_int (- n)" by (rule float_round_nat_exact)
    then show ?thesis using float_round_neg [of "of_int n"] by simp
  qed
qed


lemma float_lit_exact [simp]:
  "float_lit 0 10 = 0" "float_lit 10 10 = 1" "float_lit 180 10 = 18" "float_lit 220 10 = 22"
  "float_lit 260 10 = 26" "float_lit 320 10 = 32" "float_lit 500 10 = 50"
  by (simp_all add: float_defs)

lemma multipliers:
  "float_lit 18 10 = 8106479329266893 / 4503599627370496"
  "float_lit 17 10 = 7656119366529843 / 4503599627370496"
  "float_lit 15 10 = 3 / 2"
  "float_lit 13 10 = 5854679515581645 / 4503599627370496"
  "float_lit 12 10 = 5404319552844595 / 4503599627370496"
  "float_lit 9 10 = 8106479329266893 / 9007199254740992"
  by (simp_all add: float_defs)

lemma LEVELS_values:
  "LEVELS ''lycee'' = Some \<lparr>base_price = 18\<rparr>"
  "LEVELS ''bachelor'' = Some \<lparr>base_price = 22\<rparr>"
  "LEVELS ''master'' = Some \<lparr>base_price = 26\<rparr>"
  "LEVELS ''phd'' = Some \<lparr>base_price = 32\<rparr>"
  by (simp_all add: LEVELS_def)

lemma DEADLINES_values:
  "DEADLINES ''6h'' = Some (8106479329266893 / 4503599627370496)"
  "DEADLINES ''12h'' = Some (7656119366529843 / 4503599627370496)"
  "DEADLINES ''24h'' = Some (3 / 2)"
  "DEADLINES ''1y'' = None"
  by (simp_all add: DEADLINES_def multipliers)

lemmas float_eval = float_round_def exponent_def round_half_even_def fmul_def
  float_of_int_def Let_def scale2_def nbits.simps


lemma calculate_price_Some:
  "LEVELS L = Some lv \<Longrightarrow>
   calculate_price (Some L) D P
     = min (fmul (fmul (base_price lv) (case DEADLINES D of None \<Rightarrow> 1 | Some m \<Rightarrow> m))
              (float_of_int P))
           (fmul 50 (float_of_int P))"
  by (simp add: calculate_price_def levels_get_def split: option.splits)

lemma calculate_price_None:
  "calculate_price None D P = 0" "LEVELS L = None \<Longrightarrow> calculate_price (Some L) D P = 0"
  by (simp_all add: calculate_price_def levels_get_def)

lemma price_examples:
  "calculate_price (Some ''bachelor'') ''24h'' 2 = 66"
  "calculate_price (Some ''bachelor'') ''24h'' 1 = 33"
  "calculate_price (Some ''bachelor'') ''1y'' 2 = 44"
  "calculate_price (Some ''master'') ''1y'' 2 = 52"
  "calculate_price (Some ''phd'') ''6h'' 3 = 150"
  "calculate_price (Some ''lycee'') ''12h'' 1 = 8613134287346073 / 281474976710656"
  "calculate_price (Some ''bachelor'') ''6h'' 2 = 5573204538870989 / 70368744177664"
  unfolding calculate_price_Some [OF LEVELS_values(1)] calculate_price_Some [OF LEVELS_values(2)]
    calculate_price_Some [OF LEVELS_values(3)] calculate_price_Some [OF LEVELS_values(4)]
    DEADLINES_values
  by (simp_all add: float_eval)


lemma float_of_int_exact: "\<bar>n\<bar> < 2 ^ 53 \<Longrightarrow> float_of_int n = of_int n"
  by (simp add: float_of_int_def float_round_int_exact)

lemma fmul_int_exact:
  "\<bar>a * b\<bar> < 2 ^ 53 \<Longrightarrow> fmul (of_int a) (of_int b) = of_int (a * b)"
  using float_round_int_exact [of "a * b"] by (simp add: fmul_def)

lemma LEVELS_base:
  "LEVELS L = Some lv \<Longrightarrow> base_price lv \<in> {18, 22, 26, 32}"
  by (auto simp: LEVELS_def split: if_splits)

lemma cap_exact:
  assumes "\<bar>50 * P\<bar> < 2 ^ 53"
  shows "fmul 50 (float_of_int P) = 50 * real_of_int P"
proof -
  have p: "\<bar>P\<bar> < 2 ^ 53" using assms by linarith
  have "fmul (of_int 50) (of_int P) = of_int (50 * P)"
    using assms by (rule fmul_int_exact)
  then show ?thesis by (simp add: float_of_int_exact [OF p])
qed

lemma base_exact:
  assumes "LEVELS L = Some lv" and "\<bar>50 * P\<bar> < 2 ^ 53"
  shows "fmul (fmul (base_price lv) 1) (float_of_int P) = base_price lv * real_of_int P"
proof -
  from LEVELS_base [OF assms(1)] obtain k :: int
    where k: "base_price lv = of_int k" "0 \<le> k" "k \<le> 50"
    by (auto intro: that [of 18] that [of 22] that [of 26] that [of 32])
  have p: "\<bar>P\<bar> < 2 ^ 53" using assms(2) by linarith
  have "\<bar>k * 1\<bar> < 2 ^ 53" using k by simp
  then have one: "fmul (of_int k) (of_int 1) = of_int (k * 1)" by (rule fmul_int_exact)
  have "\<bar>k * P\<bar> \<le> \<bar>50 * P\<bar>"
    using k by (simp add: abs_mult mult_right_mono)
  then have "\<bar>k * P\<bar> < 2 ^ 53" using assms(2) by linarith
  then have "fmul (of_int k) (of_int P) = of_int (k * P)" by (rule fmul_int_exact)
  then show ?thesis
    using one by (simp add: k(1) float_of_int_exact [OF p])
qed

section \<open>Properties of the pricing\<close>



text \<open>
  Claim C2. With a level key that is not in the catalog (or with no level at all)
  \<open>calculate_price\<close> returns 0 for every deadline and number of pages; it has no error
  result. With a catalog level and a deadline key that is not in the catalog it returns
  the minimum of base price times 1 times pages and 50 times pages; as long as 50 times
  pages is below \<open>2^53\<close> in absolute value these products are exact.
\<close>

theorem calculate_price_unknown_keys:
  "(LEVELS L = None \<longrightarrow> calculate_price (Some L) D P = 0)
   \<and> calculate_price None D P = 0
   \<and> (LEVELS L = Some lv \<and> DEADLINES D = None \<longrightarrow>
        calculate_price (Some L) D P
          = min (fmul (fmul (base_price lv) 1) (float_of_int P)) (fmul 50 (float_of_int P)))
   \<and> (LEVELS L = Some lv \<and> DEADLINES D = None \<and> \<bar>50 * P\<bar> < 2 ^ 53 \<longrightarrow>
        calculate_price (Some L) D P
          = min (base_price lv * 1 * real_of_int P) (50 * real_of_int P))"
proof (intro conjI impI)
  assume "LEVELS L = None"
  then show "calculate_price (Some L) D P = 0" by (rule calculate_price_None)
next
  show "calculate_price None D P = 0" by (rule calculate_price_None)
next
  assume "LEVELS L = Some lv \<and> DEADLINES D = None"
  then show "calculate_price (Some L) D P
          = min (fmul (fmul (base_price lv) 1) (float_of_int P)) (fmul 50 (float_of_int P))"
    by (simp add: calculate_price_Some)
next
  assume a: "LEVELS L = Some lv \<and> DEADLINES D = None \<and> \<bar>50 * P\<bar> < 2 ^ 53"
  then have "calculate_price (Some L) D P
          = min (fmul (fmul (base_price lv) 1) (float_of_int P)) (fmul 50 (float_of_int P))"
    by (simp add: calculate_price_Some)
  also have "fmul (fmul (base_price lv) 1) (float_of_int P) = base_price lv * real_of_int P"
    using a by (intro base_exact [of L]) simp_all
  also have "fmul 50 (float_of_int P) = 50 * real_of_int P"
    using a by (intro cap_exact) simp
  finally show "calculate_price (Some L) D P
          = min (base_price lv * 1 * real_of_int P) (50 * real_of_int P)"
    by simp
qed

theorem calculate_price_unknown_keys_witness:
  "LEVELS ''college'' = None \<and> calculate_price (Some ''college'') ''24h'' 4 = 0
   \<and> LEVELS ''master'' = Some \<lparr>base_price = 26\<rparr> \<and> DEADLINES ''1y'' = None
   \<and> \<bar>50 * 2\<bar> < (2::int) ^ 53
   \<and> calculate_price (Some ''master'') ''1y'' 2 = 52"
proof -
  have h: "LEVELS ''college'' = None" "LEVELS ''master'' = Some \<lparr>base_price = 26\<rparr>"
    "DEADLINES ''1y'' = None" "\<bar>50 * 2\<bar> < (2::int) ^ 53"
    by (simp_all add: LEVELS_def DEADLINES_def)
  show ?thesis
    using h calculate_price_unknown_keys [of "''college''" "''24h''" 4]
      calculate_price_unknown_keys [of "''master''" "''1y''" 2 "\<lparr>base_price = 26\<rparr>"]
    by simp
qed

section \<open>Creation, expiry and lookup\<close>

text \<open>
  Claim C5. \<open>create_session\<close> stores a new session under the user's id whatever was
  stored there before: the new session has the step given, empty data and no files, and
  the sessions of the other users are as before. Starting a new order (the button
  \<open>new_order\<close>) is \<open>create_session\<close> with step \<open>order_subject\<close>, so the data and files of
  an unfinished order of that user are gone.
\<close>

theorem create_session_replaces:
  "create_session now uid stp st
     = (new_session now uid stp, AList.update uid (new_session now uid stp) st)
   \<and> map_of (snd (create_session now uid stp st)) uid = Some (new_session now uid stp)
   \<and> step (new_session now uid stp) = stp
   \<and> data (new_session now uid stp) = empty_data
   \<and> files (new_session now uid stp) = []
   \<and> (\<forall>u. u \<noteq> uid \<longrightarrow> map_of (snd (create_session now uid stp st)) u = map_of st u)
   \<and> snd (button_handler delivered now uid ''new_order'' st)
       = snd (create_session now uid ''order_subject'' st)"
  by (simp add: create_session_def Let_def update_conv' button_handler_def route_button_def
      start_order_flow_def)

theorem create_session_replaces_witness:
  "map_of (snd (button_handler True 9 4 ''new_order''
      [(4, \<lparr>user_id = 4, step = ''order_files'',
            data = empty_data\<lparr>subject := Some (ascii ''essay''), pages := Some 3\<rparr>,
            created_at = 1, last_activity = 5,
            files = [\<lparr>file_id = ''f1'', file_name = ''a.pdf'', file_size = 10, uploaded_at = 5\<rparr>]\<rparr>),
       (6, new_session 2 6 ''support'')])) 4
     = Some (new_session 9 4 ''order_subject'')
   \<and> map_of (snd (button_handler True 9 4 ''new_order''
      [(4, \<lparr>user_id = 4, step = ''order_files'',
            data = empty_data\<lparr>subject := Some (ascii ''essay''), pages := Some 3\<rparr>,
            created_at = 1, last_activity = 5,
            files = [\<lparr>file_id = ''f1'', file_name = ''a.pdf'', file_size = 10, uploaded_at = 5\<rparr>]\<rparr>),
       (6, new_session 2 6 ''support'')])) 6
     = Some (new_session 2 6 ''support'')"
  using create_session_replaces [of 9 4 "''order_subject''"
      "[(4, \<lparr>user_id = 4, step = ''order_files'',
            data = empty_data\<lparr>subject := Some (ascii ''essay''), pages := Some 3\<rparr>,
            created_at = 1, last_activity = 5,
            files = [\<lparr>file_id = ''f1'', file_name = ''a.pdf'', file_size = 10, uploaded_at = 5\<rparr>]\<rparr>),
       (6, new_session 2 6 ''support'')]" True]
  by simp

text \<open>
  Claim C8, as amended. A session is expired when its idle time (now minus
  \<open>last_activity\<close>) exceeds the timeout of 1800 seconds, and the sweep removes exactly
  the expired sessions: on a store with one entry per user it is the filter that keeps
  the others. \<open>get_session\<close>, for whatever user, runs the sweep first whenever the store
  holds more than \<open>MAX_SESSIONS\<close> sessions and then looks the user up in what is left:
  every expired session, of the user asked for or of any other, is absent from the store
  after such a call, and the sessions that are not expired stay. \<open>create_session\<close> never
  runs the sweep: it only stores the new session.
\<close>

theorem sweep_on_get_only:
  "(expired now s \<longleftrightarrow> now - last_activity s > 1800 * 1000000)
   \<and> (distinct (map fst st) \<longrightarrow>
        cleanup_old_sessions now st = filter (\<lambda>(u, s). \<not> expired now s) st)
   \<and> (length st > MAX_SESSIONS \<longrightarrow>
        get_session now uid st =
          (case map_of (cleanup_old_sessions now st) uid of
             None \<Rightarrow> (None, cleanup_old_sessions now st)
           | Some x \<Rightarrow> (Some (x\<lparr>last_activity := now\<rparr>),
                        AList.update uid (x\<lparr>last_activity := now\<rparr>)
                          (cleanup_old_sessions now st))))
   \<and> (distinct (map fst st) \<and> length st > MAX_SESSIONS
        \<and> map_of st v = Some s \<and> expired now s \<longrightarrow>
        map_of (snd (get_session now uid st)) v = None
        \<and> (v = uid \<longrightarrow> fst (get_session now uid st) = None))
   \<and> (distinct (map fst st) \<and> length st > MAX_SESSIONS
        \<and> map_of st v = Some s \<and> \<not> expired now s \<and> v \<noteq> uid \<longrightarrow>
        map_of (snd (get_session now uid st)) v = Some s)
   \<and> snd (create_session now uid stp st) = AList.update uid (new_session now uid stp) st"
proof (intro conjI impI)
  show "expired now s \<longleftrightarrow> now - last_activity s > 1800 * 1000000"
    by (simp add: expired_iff)
next
  assume "distinct (map fst st)"
  then show "cleanup_old_sessions now st = filter (\<lambda>(u, s). \<not> expired now s) st"
    by (rule cleanup_filter)
next
  assume "length st > MAX_SESSIONS"
  then show "get_session now uid st =
          (case map_of (cleanup_old_sessions now st) uid of
             None \<Rightarrow> (None, cleanup_old_sessions now st)
           | Some x \<Rightarrow> (Some (x\<lparr>last_activity := now\<rparr>),
                        AList.update uid (x\<lparr>last_activity := now\<rparr>)
                          (cleanup_old_sessions now st)))"
    by (simp add: get_session_def Let_def split: option.splits)
next
  assume a: "distinct (map fst st) \<and> length st > MAX_SESSIONS
        \<and> map_of st v = Some s \<and> expired now s"
  then have gone: "map_of (cleanup_old_sessions now st) v = None"
    by (simp add: map_of_cleanup)
  show "map_of (snd (get_session now uid st)) v = None"
    using a gone by (auto simp: get_session_def Let_def update_conv' split: option.splits)
  {
    assume "v = uid"
    then show "fst (get_session now uid st) = None"
      using a gone by (simp add: get_session_def)
  }
next
  assume a: "distinct (map fst st) \<and> length st > MAX_SESSIONS
        \<and> map_of st v = Some s \<and> \<not> expired now s \<and> v \<noteq> uid"
  then have kept: "map_of (cleanup_old_sessions now st) v = Some s"
    by (simp add: map_of_cleanup)
  show "map_of (snd (get_session now uid st)) v = Some s"
    using a kept by (auto simp: get_session_def Let_def update_conv' split: option.splits)
next
  show "snd (create_session now uid stp st) = AList.update uid (new_session now uid stp) st"
    by (simp add: create_session_def Let_def)
qed

text \<open>
  The claim as first stated also has the sweep run before \<open>create_session\<close> when the
  store is above the capacity. With 101 sessions idle for 2000 seconds, creating a
  session for another user leaves the session of user 0 in the store.
\<close>

theorem create_never_sweeps_counterexample:
  "length (crowded 0) > MAX_SESSIONS
   \<and> expired 2000000000 (new_session 0 0 ''menu'')
   \<and> map_of (snd (create_session 2000000000 500 ''order_subject'' (crowded 0))) 0
       = Some (new_session 0 0 ''menu'')"
  by (simp add: length_crowded MAX_SESSIONS_def expired_iff
      create_session_def Let_def update_conv' map_of_crowded)

theorem sweep_on_get_only_witness:
  "distinct (map fst (crowded 0)) \<and> length (crowded 0) > MAX_SESSIONS
   \<and> map_of (crowded 0) 0 = Some (new_session 0 0 ''menu'')
   \<and> expired 2000000000 (new_session 0 0 ''menu'')
   \<and> map_of (snd (get_session 2000000000 500 (crowded 0))) 0 = None
   \<and> fst (get_session 2000000000 0 (crowded 0)) = None
   \<and> \<not> expired 1000000000 (new_session 0 0 ''menu'')
   \<and> map_of (snd (get_session 1000000000 500 (crowded 0))) 0 = Some (new_session 0 0 ''menu'')"
proof -
  have h: "distinct (map fst (crowded 0))" "length (crowded 0) > MAX_SESSIONS"
    "map_of (crowded 0) 0 = Some (new_session 0 0 ''menu'')"
    "expired 2000000000 (new_session 0 0 ''menu'')"
    "\<not> expired 1000000000 (new_session 0 0 ''menu'')" "(0::int) \<noteq> 500"
    by (simp_all add: length_crowded distinct_crowded MAX_SESSIONS_def expired_iff map_of_crowded)
  show ?thesis
    using h
      sweep_on_get_only [where st = "crowded 0" and now = 2000000000 and uid = 500 and v = 0
        and s = "new_session 0 0 ''menu''" and stp = "''menu''"]
      sweep_on_get_only [where st = "crowded 0" and now = 2000000000 and uid = 0 and v = 0
        and s = "new_session 0 0 ''menu''" and stp = "''menu''"]
      sweep_on_get_only [where st = "crowded 0" and now = 1000000000 and uid = 500 and v = 0
        and s = "new_session 0 0 ''menu''" and stp = "''menu''"]
    by blast
qed

text \<open>
  Claim C9. \<open>get_session\<close> does not look at the idle time of the session it returns:
  when the store holds at most \<open>MAX_SESSIONS\<close> sessions, a stored session is returned
  with \<open>last_activity\<close> set to the current time, however long it has been idle, and is
  from then on not expired.
\<close>

theorem get_session_revives:
  "length st \<le> MAX_SESSIONS \<Longrightarrow> map_of st uid = Some s \<Longrightarrow>
   get_session now uid st =
     (Some (s\<lparr>last_activity := now\<rparr>), AList.update uid (s\<lparr>last_activity := now\<rparr>) st)
   \<and> map_of (snd (get_session now uid st)) uid = Some (s\<lparr>last_activity := now\<rparr>)
   \<and> \<not> expired now (s\<lparr>last_activity := now\<rparr>)"
  by (simp add: get_session_def Let_def update_conv' expired_iff)

theorem get_session_revives_witness:
  "length [(7::int, new_session 0 7 ''order_pages'')] \<le> MAX_SESSIONS
   \<and> map_of [(7::int, new_session 0 7 ''order_pages'')] 7 = Some (new_session 0 7 ''order_pages'')
   \<and> expired 2000000000 (new_session 0 7 ''order_pages'')
   \<and> get_session 2000000000 7 [(7, new_session 0 7 ''order_pages'')] =
       (Some ((new_session 0 7 ''order_pages'')\<lparr>last_activity := 2000000000\<rparr>),
        [(7, (new_session 0 7 ''order_pages'')\<lparr>last_activity := 2000000000\<rparr>)])"
proof -
  have h: "length [(7::int, new_session 0 7 ''order_pages'')] \<le> MAX_SESSIONS"
    "map_of [(7::int, new_session 0 7 ''order_pages'')] 7 = Some (new_session 0 7 ''order_pages'')"
    by (simp_all add: MAX_SESSIONS_def)
  show ?thesis
    using h get_session_revives [OF h, of 2000000000]
    by (simp add: expired_iff)
qed

section \<open>Facts about the handlers\<close>

lemma dict_update_single [simp]: "dict_update [e] d = set_entry e d"
  by (simp add: dict_update_def)

lemma deadline_selection_result:
  assumes g: "get_session now uid st = (Some s, st1)"
  shows "handle_deadline_selection now uid cb st =
           (Inr OrderStep5,
            AList.update uid
              (s\<lparr>step := ''order_instructions'',
                 data := (data s)\<lparr>deadline := Some (str_remove ''deadline_'' cb),
                   final_price := Some (calculate_price (level (data s)) (str_remove ''deadline_'' cb)
                                          (case pages (data s) of None \<Rightarrow> 1 | Some n \<Rightarrow> n))\<rparr>,
                 last_activity := now\<rparr>)
              st1)"
proof -
  let ?key = "str_remove ''deadline_'' cb"
  let ?s2 = "session_update now (Some ''order_instructions'') [Deadline ?key] s"
  let ?st2 = "AList.update uid ?s2 st1"
  note d = get_session_SomeD [OF g]
  have st2: "update_session now uid (Some ''order_instructions'') [Deadline ?key] st1 = ?st2"
    using d(3) d(1) by (rule update_session_calm)
  have m2: "map_of ?st2 uid = Some ?s2" by (simp add: update_conv')
  have c2: "calm now ?st2"
    using d(3) d(1) by (rule calm_update) (simp add: expired_iff)
  have st3: "update_session now uid None [FinalPrice p] ?st2
               = AList.update uid (session_update now None [FinalPrice p] ?s2) st1" for p
    using update_session_calm [OF c2 m2] by simp
  show ?thesis
    unfolding handle_deadline_selection_def Let_def g prod.case st2 option.case m2 st3
    by (simp add: session_update_def)
qed

lemma level_selection_result:
  "handle_level_selection now uid cb st =
     (case LEVELS (str_remove ''level_'' cb) of
        None \<Rightarrow> Inl KeyError
      | Some lv \<Rightarrow> Inr (OrderStep3 (base_price lv)),
      update_session now uid (Some ''order_pages'') [Level (str_remove ''level_'' cb)] st)"
  by (simp add: handle_level_selection_def Let_def split: option.splits)

lemma route_level:
  "prefix ''level_'' cb \<Longrightarrow> route_button delivered now uid cb st = handle_level_selection now uid cb st"
  by (auto simp: route_button_def prefix_def)

lemma route_deadline:
  "prefix ''deadline_'' cb \<Longrightarrow> route_button delivered now uid cb st = handle_deadline_selection now uid cb st"
  by (auto simp: route_button_def prefix_def)

lemma text_pages_invalid:
  assumes "get_session now uid st = (Some s, st1)" and "step s = ''order_pages''"
    and "py_int u (strip u t) = None
         \<or> (\<exists>n. py_int u (strip u t) = Some n \<and> (n \<le> 0 \<or> n > 50))"
  shows "text_handler u delivered now uid t st = (IncorrectFormat, st1)"
  using assms by (auto simp: text_handler_def)

lemma text_pages_valid:
  assumes g: "get_session now uid st = (Some s, st1)" and "step s = ''order_pages''"
    and "py_int u (strip u t) = Some n" and "1 \<le> n" and "n \<le> 50"
  shows "text_handler u delivered now uid t st =
           (OrderStep4 n,
            AList.update uid
              (s\<lparr>step := ''order_deadline'', data := (data s)\<lparr>pages := Some n\<rparr>,
                 last_activity := now\<rparr>) st1)"
proof -
  note d = get_session_SomeD [OF g]
  have "update_session now uid (Some ''order_deadline'') [Pages n] st1
          = AList.update uid (session_update now (Some ''order_deadline'') [Pages n] s) st1"
    using d(3) d(1) by (rule update_session_calm)
  then show ?thesis
    using assms by (simp add: text_handler_def session_update_def)
qed


lemma get_session_single:
  "get_session now uid [(uid, s)] = (Some (s\<lparr>last_activity := now\<rparr>), [(uid, s\<lparr>last_activity := now\<rparr>)])"
  by (simp add: get_session_def MAX_SESSIONS_def Let_def)

lemma get_session_origin:
  assumes "get_session now uid st = (Some s, st1)"
  shows "\<exists>s0. (uid, s0) \<in> set st \<and> s = s0\<lparr>last_activity := now\<rparr>"
proof -
  from get_session_SomeD(4) [OF assms] obtain s0
    where "map_of (swept now st) uid = Some s0" and s: "s = s0\<lparr>last_activity := now\<rparr>" by blast
  then have "(uid, s0) \<in> set (swept now st)" by (simp add: map_of_SomeD)
  then have "(uid, s0) \<in> set st" using swept_subset by blast
  with s show ?thesis by blast
qed

lemma update_session_entry:
  "\<exists>s'. map_of (update_session now uid (Some ''order_pages'') [Level k] st) uid = Some s'
        \<and> step s' = ''order_pages'' \<and> level (data s') = Some k"
  by (simp add: update_session_swept update_conv' session_update_step session_update_data)

section \<open>The order flow\<close>

text \<open>
  Claim C3. Let the session that \<open>text_handler\<close> loads for the user be at step
  \<open>order_pages\<close>. Whatever the Unicode tables: a text that, stripped, is not a number, or
  is a number that is at most 0 or more than 50, is answered with the format message and
  the store is left as the lookup left it: the session keeps its step and its data, so
  \<open>pages\<close> stays unset (the lookup itself only refreshes \<open>last_activity\<close>). A text that
  is a number from 1 to 50 sets \<open>pages\<close> to that number and the step to
  \<open>order_deadline\<close>.
\<close>

theorem order_pages_validation:
  "get_session now uid st = (Some s, st1) \<Longrightarrow> step s = ''order_pages'' \<Longrightarrow>
   (py_int u (strip u t) = None
      \<or> (\<exists>n. py_int u (strip u t) = Some n \<and> (n \<le> 0 \<or> n > 50)) \<longrightarrow>
      text_handler u delivered now uid t st = (IncorrectFormat, st1) \<and> map_of st1 uid = Some s)
   \<and> (\<forall>n. py_int u (strip u t) = Some n \<and> 1 \<le> n \<and> n \<le> 50 \<longrightarrow>
        (\<exists>st2 s2. text_handler u delivered now uid t st = (OrderStep4 n, st2)
           \<and> map_of st2 uid = Some s2
           \<and> step s2 = ''order_deadline'' \<and> pages (data s2) = Some n))
   \<and> (\<exists>s0. (uid, s0) \<in> set st \<and> step s0 = step s \<and> data s0 = data s)"
proof (intro conjI impI allI)
  assume g: "get_session now uid st = (Some s, st1)" and p: "step s = ''order_pages''"
  {
    assume "py_int u (strip u t) = None
      \<or> (\<exists>n. py_int u (strip u t) = Some n \<and> (n \<le> 0 \<or> n > 50))"
    with g p show "text_handler u delivered now uid t st = (IncorrectFormat, st1)"
      by (rule text_pages_invalid)
    show "map_of st1 uid = Some s" using g by (rule get_session_SomeD(1))
  }
  {
    fix n assume "py_int u (strip u t) = Some n \<and> 1 \<le> n \<and> n \<le> 50"
    then have "text_handler u delivered now uid t st =
           (OrderStep4 n,
            AList.update uid
              (s\<lparr>step := ''order_deadline'', data := (data s)\<lparr>pages := Some n\<rparr>,
                 last_activity := now\<rparr>) st1)"
      using text_pages_valid [OF g p] by blast
    then show "\<exists>st2 s2. text_handler u delivered now uid t st = (OrderStep4 n, st2)
           \<and> map_of st2 uid = Some s2
           \<and> step s2 = ''order_deadline'' \<and> pages (data s2) = Some n"
      by (simp add: update_conv')
  }
  show "\<exists>s0. (uid, s0) \<in> set st \<and> step s0 = step s \<and> data s0 = data s"
    using get_session_origin [OF g] by auto
qed

text \<open>
  The witness takes the texts \<open>abc\<close>, \<open>0\<close>, \<open>51\<close> and \<open>5\<close>, and two texts above ASCII:
  a no-break space before the digit 5, and the Arabic-Indic digit five.
\<close>

lemma parse_samples:
  "py_int sample_db (strip sample_db (ascii ''abc'')) = None"
  "py_int sample_db (strip sample_db (ascii ''0'')) = Some 0"
  "py_int sample_db (strip sample_db (ascii ''51'')) = Some 51"
  "py_int sample_db (strip sample_db (ascii ''5'')) = Some 5"
  "py_int sample_db (strip sample_db [160, 53]) = Some 5"
  "py_int sample_db (strip sample_db [1637]) = Some 5"
  by (simp_all add: py_int_def strip_def is_space_def int_space_def parse_unsigned_def
      digit_val_def sample_db_def ascii_def)

theorem order_pages_validation_witness:
  "get_session 10 5 [(5, new_session 0 5 ''order_pages'')]
     = (Some ((new_session 0 5 ''order_pages'')\<lparr>last_activity := 10\<rparr>),
        [(5, (new_session 0 5 ''order_pages'')\<lparr>last_activity := 10\<rparr>)])
   \<and> py_int sample_db (strip sample_db (ascii ''abc'')) = None
   \<and> text_handler sample_db True 10 5 (ascii ''abc'') [(5, new_session 0 5 ''order_pages'')]
       = (IncorrectFormat, [(5, (new_session 0 5 ''order_pages'')\<lparr>last_activity := 10\<rparr>)])
   \<and> py_int sample_db (strip sample_db (ascii ''0'')) = Some 0
   \<and> text_handler sample_db True 10 5 (ascii ''0'') [(5, new_session 0 5 ''order_pages'')]
       = (IncorrectFormat, [(5, (new_session 0 5 ''order_pages'')\<lparr>last_activity := 10\<rparr>)])
   \<and> py_int sample_db (strip sample_db (ascii ''51'')) = Some 51
   \<and> text_handler sample_db True 10 5 (ascii ''51'') [(5, new_session 0 5 ''order_pages'')]
       = (IncorrectFormat, [(5, (new_session 0 5 ''order_pages'')\<lparr>last_activity := 10\<rparr>)])
   \<and> py_int sample_db (strip sample_db (ascii ''5'')) = Some 5
   \<and> fst (text_handler sample_db True 10 5 (ascii ''5'') [(5, new_session 0 5 ''order_pages'')])
       = OrderStep4 5
   \<and> map_option step
        (map_of (snd (text_handler sample_db True 10 5 (ascii ''5'')
                        [(5, new_session 0 5 ''order_pages'')])) 5)
       = Some ''order_deadline''
   \<and> map_option (\<lambda>x. pages (data x))
        (map_of (snd (text_handler sample_db True 10 5 (ascii ''5'')
                        [(5, new_session 0 5 ''order_pages'')])) 5)
       = Some (Some 5)
   \<and> py_int sample_db (strip sample_db [160, 53]) = Some 5
   \<and> map_option (\<lambda>x. pages (data x))
        (map_of (snd (text_handler sample_db True 10 5 [160, 53]
                        [(5, new_session 0 5 ''order_pages'')])) 5)
       = Some (Some 5)
   \<and> py_int sample_db (strip sample_db [1637]) = Some 5
   \<and> map_option (\<lambda>x. pages (data x))
        (map_of (snd (text_handler sample_db True 10 5 [1637]
                        [(5, new_session 0 5 ''order_pages'')])) 5)
       = Some (Some 5)"
proof -
  let ?S = "[(5, new_session 0 5 ''order_pages'')]"
  let ?s = "(new_session 0 5 ''order_pages'')\<lparr>last_activity := 10\<rparr>"
  have g: "get_session 10 5 ?S = (Some ?s, [(5, ?s)])" by (rule get_session_single)
  have p: "step ?s = ''order_pages''" by simp
  note v = order_pages_validation [OF g p, where u = sample_db and delivered = True]
  show ?thesis
    using g parse_samples v [of "ascii ''abc''"] v [of "ascii ''0''"] v [of "ascii ''51''"]
      v [of "ascii ''5''"] v [of "[160, 53]"] v [of "[1637]"]
    by auto
qed

text \<open>
  Claim C10. At the selection of a deadline, for a user who has a session: the price is
  computed from the stored level and pages, with 1 for the pages when the data has no
  \<open>pages\<close> entry, and it is 0 when the data has no \<open>level\<close> entry; in every case the
  handler returns normally, stores \<open>final_price\<close> and sets the step to
  \<open>order_instructions\<close>.
\<close>

theorem deadline_selection_defaults:
  "get_session now uid st = (Some s, st1) \<Longrightarrow>
   (\<exists>st3 s3. handle_deadline_selection now uid cb st = (Inr OrderStep5, st3)
      \<and> map_of st3 uid = Some s3
      \<and> step s3 = ''order_instructions''
      \<and> final_price (data s3)
          = Some (calculate_price (level (data s)) (str_remove ''deadline_'' cb)
                    (case pages (data s) of None \<Rightarrow> 1 | Some n \<Rightarrow> n))
      \<and> (pages (data s) = None \<longrightarrow>
           final_price (data s3)
             = Some (calculate_price (level (data s)) (str_remove ''deadline_'' cb) 1))
      \<and> (level (data s) = None \<longrightarrow> final_price (data s3) = Some 0))"
  by (auto simp: deadline_selection_result update_conv' calculate_price_def levels_get_def
      split: option.splits)

theorem deadline_selection_defaults_witness:
  "get_session 10 5 [(5, (new_session 0 5 ''order_deadline'')\<lparr>data := empty_data\<lparr>level := Some ''bachelor''\<rparr>\<rparr>)]
     = (Some ((new_session 0 5 ''order_deadline'')\<lparr>data := empty_data\<lparr>level := Some ''bachelor''\<rparr>,
                last_activity := 10\<rparr>),
        [(5, (new_session 0 5 ''order_deadline'')\<lparr>data := empty_data\<lparr>level := Some ''bachelor''\<rparr>,
                last_activity := 10\<rparr>)])
   \<and> fst (handle_deadline_selection 10 5 ''deadline_24h''
        [(5, (new_session 0 5 ''order_deadline'')\<lparr>data := empty_data\<lparr>level := Some ''bachelor''\<rparr>\<rparr>)])
       = Inr OrderStep5
   \<and> map_option (\<lambda>x. final_price (data x))
        (map_of (snd (handle_deadline_selection 10 5 ''deadline_24h''
           [(5, (new_session 0 5 ''order_deadline'')\<lparr>data := empty_data\<lparr>level := Some ''bachelor''\<rparr>\<rparr>)])) 5)
       = Some (Some 33)
   \<and> map_option step
        (map_of (snd (handle_deadline_selection 10 5 ''deadline_24h''
           [(5, (new_session 0 5 ''order_deadline'')\<lparr>data := empty_data\<lparr>level := Some ''bachelor''\<rparr>\<rparr>)])) 5)
       = Some ''order_instructions''"
proof -
  let ?a = "(new_session 0 5 ''order_deadline'')\<lparr>data := empty_data\<lparr>level := Some ''bachelor''\<rparr>\<rparr>"
  let ?b = "(new_session 0 5 ''order_deadline'')\<lparr>data := empty_data\<lparr>level := Some ''bachelor''\<rparr>,
                last_activity := 10\<rparr>"
  have g: "get_session 10 5 [(5, ?a)] = (Some ?b, [(5, ?b)])"
    using get_session_single [of 10 5 ?a] by simp
  have k: "str_remove ''deadline_'' ''deadline_24h'' = ''24h''" by simp
  have c: "calculate_price (Some ''bachelor'') ''24h'' 1 = 33"
    by (rule price_examples)
  have e: "pages (data ?b) = None" "level (data ?b) = Some ''bachelor''"
    by (simp_all add: empty_data_def)
  from deadline_selection_defaults [OF g, of "''deadline_24h''"]
  obtain st3 s3 where r: "handle_deadline_selection 10 5 ''deadline_24h'' [(5, ?a)] = (Inr OrderStep5, st3)"
    "map_of st3 5 = Some s3" "step s3 = ''order_instructions''"
    "final_price (data s3) = Some 33"
    unfolding k e by (auto simp: c)
  show ?thesis
    using g by (simp add: r)
qed


text \<open>
  Claim C7, as amended. A press of a level button or of a deadline button whose key is
  not in the catalog is not ignored. The level press stores the key under \<open>level\<close> and
  sets the step to \<open>order_pages\<close> before the lookup in the catalog raises, and the user
  gets the temporary-error text. The deadline press, for a user who has a session, stores
  the key under \<open>deadline\<close>, sets the step to \<open>order_instructions\<close> and stores the
  price computed with the multiplier 1.
\<close>

theorem unknown_key_press_mutates:
  "(prefix ''level_'' cb \<and> LEVELS (str_remove ''level_'' cb) = None \<longrightarrow>
      (\<exists>st' s'. button_handler delivered now uid cb st = (TemporaryError, st')
         \<and> map_of st' uid = Some s'
         \<and> step s' = ''order_pages''
         \<and> level (data s') = Some (str_remove ''level_'' cb)))
   \<and> (prefix ''deadline_'' cb \<and> DEADLINES (str_remove ''deadline_'' cb) = None
        \<and> get_session now uid st = (Some s, st1) \<longrightarrow>
      (\<exists>st' s'. button_handler delivered now uid cb st = (OrderStep5, st')
         \<and> map_of st' uid = Some s'
         \<and> step s' = ''order_instructions''
         \<and> deadline (data s') = Some (str_remove ''deadline_'' cb)
         \<and> final_price (data s')
             = Some (calculate_price (level (data s)) (str_remove ''deadline_'' cb)
                       (case pages (data s) of None \<Rightarrow> 1 | Some n \<Rightarrow> n))))"
proof (intro conjI impI)
  assume a: "prefix ''level_'' cb \<and> LEVELS (str_remove ''level_'' cb) = None"
  then have "button_handler delivered now uid cb st
      = (TemporaryError,
         update_session now uid (Some ''order_pages'') [Level (str_remove ''level_'' cb)] st)"
    by (simp add: button_handler_def route_level level_selection_result)
  then show "\<exists>st' s'. button_handler delivered now uid cb st = (TemporaryError, st')
         \<and> map_of st' uid = Some s'
         \<and> step s' = ''order_pages''
         \<and> level (data s') = Some (str_remove ''level_'' cb)"
    using update_session_entry [of now uid "str_remove ''level_'' cb" st] by auto
next
  assume a: "prefix ''deadline_'' cb \<and> DEADLINES (str_remove ''deadline_'' cb) = None
        \<and> get_session now uid st = (Some s, st1)"
  then show "\<exists>st' s'. button_handler delivered now uid cb st = (OrderStep5, st')
         \<and> map_of st' uid = Some s'
         \<and> step s' = ''order_instructions''
         \<and> deadline (data s') = Some (str_remove ''deadline_'' cb)
         \<and> final_price (data s')
             = Some (calculate_price (level (data s)) (str_remove ''deadline_'' cb)
                       (case pages (data s) of None \<Rightarrow> 1 | Some n \<Rightarrow> n))"
    by (simp add: button_handler_def route_deadline deadline_selection_result update_conv')
qed

text \<open>
  The claim as first stated has the session unchanged. For user 5 at step \<open>order_level\<close>
  the button \<open>level_xyz\<close> leaves the session at step \<open>order_pages\<close> with level \<open>xyz\<close>;
  at step \<open>order_deadline\<close>, with level \<open>bachelor\<close> and 2 pages, the button
  \<open>deadline_1y\<close> leaves it at step \<open>order_instructions\<close> with the price 44.
\<close>

theorem unknown_key_press_counterexample:
  "LEVELS ''xyz'' = None
   \<and> button_handler True 10 5 ''level_xyz'' [(5, new_session 0 5 ''order_level'')]
       = (TemporaryError,
          [(5, (new_session 0 5 ''order_level'')
                 \<lparr>step := ''order_pages'', data := empty_data\<lparr>level := Some ''xyz''\<rparr>,
                    last_activity := 10\<rparr>)])
   \<and> DEADLINES ''1y'' = None
   \<and> button_handler True 10 5 ''deadline_1y''
        [(5, (new_session 0 5 ''order_deadline'')
               \<lparr>data := empty_data\<lparr>level := Some ''bachelor'', pages := Some 2\<rparr>\<rparr>)]
       = (OrderStep5,
          [(5, (new_session 0 5 ''order_deadline'')
                 \<lparr>step := ''order_instructions'',
                    data := empty_data\<lparr>level := Some ''bachelor'', pages := Some 2,
                              deadline := Some ''1y'', final_price := Some 44\<rparr>,
                    last_activity := 10\<rparr>)])"
proof -
  let ?a = "new_session 0 5 ''order_level''"
  let ?b = "(new_session 0 5 ''order_deadline'')
               \<lparr>data := empty_data\<lparr>level := Some ''bachelor'', pages := Some 2\<rparr>\<rparr>"
  have l: "LEVELS ''xyz'' = None" and d: "DEADLINES ''1y'' = None"
    by (simp_all add: LEVELS_def DEADLINES_def)
  have k: "str_remove ''level_'' ''level_xyz'' = ''xyz''"
    "str_remove ''deadline_'' ''deadline_1y'' = ''1y''" by simp_all
  have c: "calculate_price (Some ''bachelor'') ''1y'' 2 = 44"
    by (rule price_examples)
  have ca: "calm 10 [(5, ?a)]" by (simp add: calm_def MAX_SESSIONS_def)
  have "button_handler True 10 5 ''level_xyz'' [(5, ?a)]
          = (TemporaryError, update_session 10 5 (Some ''order_pages'') [Level ''xyz''] [(5, ?a)])"
    by (simp add: button_handler_def route_level level_selection_result k l)
  also have "update_session 10 5 (Some ''order_pages'') [Level ''xyz''] [(5, ?a)]
          = [(5, ?a\<lparr>step := ''order_pages'', data := empty_data\<lparr>level := Some ''xyz''\<rparr>,
                    last_activity := 10\<rparr>)]"
    using update_session_calm [OF ca, of 5 ?a] by (simp add: session_update_def)
  finally have lv: "button_handler True 10 5 ''level_xyz'' [(5, ?a)]
          = (TemporaryError, [(5, ?a\<lparr>step := ''order_pages'', data := empty_data\<lparr>level := Some ''xyz''\<rparr>,
                    last_activity := 10\<rparr>)])" .
  have g: "get_session 10 5 [(5, ?b)] = (Some (?b\<lparr>last_activity := 10\<rparr>), [(5, ?b\<lparr>last_activity := 10\<rparr>)])"
    by (rule get_session_single)
  have dl: "button_handler True 10 5 ''deadline_1y'' [(5, ?b)]
       = (OrderStep5,
          [(5, (new_session 0 5 ''order_deadline'')
                 \<lparr>step := ''order_instructions'',
                    data := empty_data\<lparr>level := Some ''bachelor'', pages := Some 2,
                              deadline := Some ''1y'', final_price := Some 44\<rparr>,
                    last_activity := 10\<rparr>)])"
    by (simp add: button_handler_def route_deadline deadline_selection_result [OF g] k c)
  show ?thesis using l d lv dl by simp
qed

theorem unknown_key_press_mutates_witness:
  "prefix ''level_'' ''level_xyz'' \<and> LEVELS (str_remove ''level_'' ''level_xyz'') = None
   \<and> fst (button_handler True 10 5 ''level_xyz'' [(5, new_session 0 5 ''order_level'')]) = TemporaryError
   \<and> map_option step (map_of (snd (button_handler True 10 5 ''level_xyz'' [(5, new_session 0 5 ''order_level'')])) 5)
       = Some ''order_pages''
   \<and> prefix ''deadline_'' ''deadline_1y'' \<and> DEADLINES (str_remove ''deadline_'' ''deadline_1y'') = None
   \<and> fst (button_handler True 10 5 ''deadline_1y'' [(5, new_session 0 5 ''order_deadline'')]) = OrderStep5
   \<and> map_option step (map_of (snd (button_handler True 10 5 ''deadline_1y'' [(5, new_session 0 5 ''order_deadline'')])) 5)
       = Some ''order_instructions''
   \<and> map_option (\<lambda>x. final_price (data x))
        (map_of (snd (button_handler True 10 5 ''deadline_1y'' [(5, new_session 0 5 ''order_deadline'')])) 5)
       = Some (Some 0)"
proof -
  let ?a = "new_session 0 5 ''order_level''"
  let ?b = "new_session 0 5 ''order_deadline''"
  have h1: "prefix ''level_'' ''level_xyz'' \<and> LEVELS (str_remove ''level_'' ''level_xyz'') = None"
    by (simp add: LEVELS_def)
  have g: "get_session 10 5 [(5, ?b)] = (Some (?b\<lparr>last_activity := 10\<rparr>), [(5, ?b\<lparr>last_activity := 10\<rparr>)])"
    by (rule get_session_single)
  have h2: "prefix ''deadline_'' ''deadline_1y'' \<and> DEADLINES (str_remove ''deadline_'' ''deadline_1y'') = None
      \<and> get_session 10 5 [(5, ?b)] = (Some (?b\<lparr>last_activity := 10\<rparr>), [(5, ?b\<lparr>last_activity := 10\<rparr>)])"
    using g by (simp add: DEADLINES_def)
  have c: "calculate_price None ''1y'' 1 = 0"
    by (rule calculate_price_None)
  from unknown_key_press_mutates [where cb = "''level_xyz''" and delivered = True and now = 10
      and uid = 5 and st = "[(5, ?a)]"] h1
  obtain st' s' where r1: "button_handler True 10 5 ''level_xyz'' [(5, ?a)] = (TemporaryError, st')"
    "map_of st' 5 = Some s'" "step s' = ''order_pages''"
    by blast
  from unknown_key_press_mutates [where cb = "''deadline_1y''" and delivered = True and now = 10
      and uid = 5 and st = "[(5, ?b)]" and s = "?b\<lparr>last_activity := 10\<rparr>"
      and ?st1.0 = "[(5, ?b\<lparr>last_activity := 10\<rparr>)]"] h2
  obtain st'' s'' where r2: "button_handler True 10 5 ''deadline_1y'' [(5, ?b)] = (OrderStep5, st'')"
    "map_of st'' 5 = Some s''" "step s'' = ''order_instructions''"
    "final_price (data s'') = Some (calculate_price (level (data (?b\<lparr>last_activity := 10\<rparr>)))
        (str_remove ''deadline_'' ''deadline_1y'')
        (case pages (data (?b\<lparr>last_activity := 10\<rparr>)) of None \<Rightarrow> 1 | Some n \<Rightarrow> n))"
    by blast
  have r2': "final_price (data s'') = Some 0"
    using r2(4) by (simp add: empty_data_def c)
  show ?thesis
    using h1 h2 by (simp add: r1 r2(1,2,3) r2')
qed

section \<open>The bound on the files\<close>

lemma files_bounded_subset: "set st' \<subseteq> set st \<Longrightarrow> files_bounded st \<Longrightarrow> files_bounded st'"
  by (auto simp: files_bounded_def)

lemma files_bounded_update:
  "files_bounded st \<Longrightarrow> length (files s) \<le> MAX_FILES_PER_ORDER \<Longrightarrow>
   files_bounded (AList.update k s st)"
  using set_update_subset [of k s st] by (auto simp: files_bounded_def)

lemma files_bounded_entry:
  "files_bounded st \<Longrightarrow> map_of st k = Some s \<Longrightarrow> length (files s) \<le> MAX_FILES_PER_ORDER"
  by (auto simp: files_bounded_def dest: map_of_SomeD)

lemma files_bounded_swept: "files_bounded st \<Longrightarrow> files_bounded (swept now st)"
  using swept_subset by (rule files_bounded_subset)

lemma files_bounded_clear: "files_bounded st \<Longrightarrow> files_bounded (clear_session uid st)"
  unfolding clear_session_def using set_delete_subset by (rule files_bounded_subset)

lemma files_bounded_get:
  assumes "files_bounded st"
  shows "files_bounded (snd (get_session now uid st))"
proof (cases "map_of (swept now st) uid")
  case None
  then show ?thesis using assms by (simp add: get_session_swept files_bounded_swept)
next
  case (Some s)
  have "length (files s) \<le> MAX_FILES_PER_ORDER"
    using files_bounded_swept [OF assms] Some by (rule files_bounded_entry)
  then show ?thesis
    using Some assms by (simp add: get_session_swept files_bounded_swept files_bounded_update)
qed

lemma files_bounded_create:
  "files_bounded st \<Longrightarrow> files_bounded (snd (create_session now uid stp st))"
  by (simp add: create_session_def Let_def files_bounded_update)

lemma files_bounded_update_session:
  assumes "files_bounded st"
  shows "files_bounded (update_session now uid stp patch st)"
proof -
  have "length (files (case map_of (swept now st) uid of
             None \<Rightarrow> new_session now uid ''menu'' | Some s \<Rightarrow> s)) \<le> MAX_FILES_PER_ORDER"
    using files_bounded_entry [OF files_bounded_swept [OF assms]]
    by (auto split: option.splits)
  then show ?thesis
    unfolding update_session_swept
    by (intro files_bounded_update files_bounded_swept assms) simp
qed

lemma add_file_bounded:
  "length (files s) \<le> MAX_FILES_PER_ORDER \<Longrightarrow>
   length (files (snd (add_file now fid fname fsize s))) \<le> MAX_FILES_PER_ORDER"
  by (simp add: add_file_def)

lemma files_bounded_store_file:
  "files_bounded st \<Longrightarrow> length (files s) \<le> MAX_FILES_PER_ORDER \<Longrightarrow>
   files_bounded (snd (store_file now uid s fid fname fsize st))"
  using add_file_bounded [of s now fid fname fsize]
  by (auto simp: store_file_def files_bounded_update split: prod.splits)

lemma files_bounded_file_handler:
  assumes "files_bounded st"
  shows "files_bounded (snd (file_handler now uid msg st))"
proof (cases "get_session now uid st")
  case (Pair r st1)
  have b1: "files_bounded st1" using files_bounded_get [OF assms, of now uid] Pair by simp
  show ?thesis
  proof (cases r)
    case None
    then show ?thesis using Pair b1 by (simp add: file_handler_def)
  next
    case (Some s)
    have "map_of st1 uid = Some s" using Pair Some get_session_SomeD(1) by simp
    then have "length (files s) \<le> MAX_FILES_PER_ORDER" using b1 files_bounded_entry by blast
    then show ?thesis
      using Pair Some b1
      by (auto simp: file_handler_def files_bounded_store_file split: option.splits)
  qed
qed

lemma files_bounded_text_handler:
  assumes "files_bounded st"
  shows "files_bounded (snd (text_handler u delivered now uid t st))"
proof (cases "get_session now uid st")
  case (Pair r st1)
  have b1: "files_bounded st1" using files_bounded_get [OF assms, of now uid] Pair by simp
  show ?thesis
    using Pair b1
    by (auto simp: text_handler_def handle_support_message_def files_bounded_update_session
        files_bounded_clear split: option.splits)
qed

lemma files_bounded_deadline:
  assumes "files_bounded st"
  shows "files_bounded (snd (handle_deadline_selection now uid cb st))"
proof (cases "get_session now uid st")
  case (Pair r st1)
  have b1: "files_bounded st1" using files_bounded_get [OF assms, of now uid] Pair by simp
  show ?thesis
    using Pair b1
    by (auto simp: handle_deadline_selection_def Let_def files_bounded_update_session
        split: option.splits)
qed

lemma files_bounded_summary:
  "files_bounded st \<Longrightarrow> files_bounded (snd (display_order_summary now uid st))"
  using files_bounded_get [of st now uid]
  by (auto simp: display_order_summary_def split: prod.splits option.splits)

lemma files_bounded_payment:
  "files_bounded st \<Longrightarrow> files_bounded (snd (send_payment_info delivered now uid pt st))"
  using files_bounded_get [of st now uid]
  by (auto simp: send_payment_info_def files_bounded_clear split: prod.splits option.splits)

lemma files_bounded_route:
  "files_bounded st \<Longrightarrow> files_bounded (snd (route_button delivered now uid cb st))"
  by (simp add: route_button_def main_menu_def start_order_flow_def support_interface_def
      handle_level_selection_def Let_def handle_payment_transfer_def handle_crypto_selection_def
      files_bounded_clear files_bounded_create files_bounded_update_session
      files_bounded_deadline files_bounded_summary files_bounded_payment split: option.splits)

lemma files_bounded_button:
  "files_bounded st \<Longrightarrow> files_bounded (snd (button_handler delivered now uid cb st))"
  using files_bounded_route [of st delivered now uid cb]
  by (auto simp: button_handler_def split: prod.splits sum.splits)

lemma files_bounded_event:
  "files_bounded st \<Longrightarrow> files_bounded (snd (handle_event u admin_id delivered now uid ev st))"
  by (cases ev)
     (simp_all add: handle_event_def main_menu_def files_bounded_clear files_bounded_button
        files_bounded_text_handler files_bounded_file_handler)

lemma files_bounded_reachable: "reachable st \<Longrightarrow> files_bounded st"
proof (induction rule: reachable.induct)
  case reachable_init
  show ?case by (simp add: files_bounded_def)
next
  case (reachable_step st u admin_id delivered now uid ev)
  then show ?case by (simp add: files_bounded_event)
qed

section \<open>The stored price\<close>






lemma price_kept_trans:
  assumes ab: "price_kept a b" and bc: "price_same b c"
  shows "price_kept a c"
  unfolding price_kept_def
proof (rule ballI)
  fix x assume x: "x \<in> set c"
  obtain u s'' where xe: "x = (u, s'')" by (cases x)
  from bc x xe obtain s' where 1: "(u, s') \<in> set b" "final_price (data s'') = final_price (data s')"
    by (auto simp: price_same_def)
  from ab 1 have "(\<exists>s. (u, s) \<in> set a \<and> final_price (data s') = final_price (data s))
      \<or> final_price (data s') = None"
    by (auto simp: price_kept_def)
  with 1 xe show "case x of (u, s') \<Rightarrow> (\<exists>s. (u, s) \<in> set a \<and> final_price (data s') = final_price (data s))
      \<or> final_price (data s') = None"
    by auto
qed























section \<open>The claims about files and the price\<close>

lemma reachable_run: "reachable st \<Longrightarrow> reachable (run_events admin_id es st)"
proof (induction es arbitrary: st)
  case Nil
  then show ?case by simp
next
  case (Cons e es)
  obtain now uid ev where e: "e = (now, uid, ev)" by (cases e)
  have "reachable (snd (handle_event sample_db admin_id True now uid ev st))"
    using Cons.prems by (rule reachable_step)
  then show ?case unfolding e by (simp add: Cons.IH)
qed

lemmas run_defs = handle_event_def button_handler_def route_button_def text_handler_def
  file_handler_def store_file_def add_file_def get_session_def update_session_def
  create_session_def new_session_def handle_level_selection_def handle_deadline_selection_def
  start_order_flow_def MAX_SESSIONS_def MAX_FILES_PER_ORDER_def or_default_def
  py_int_def strip_def is_space_def int_space_def parse_unsigned_def digit_val_def
  sample_db_def ascii_def price_examples LEVELS_values empty_data_def
  document_message_def upload_trace_def Let_def

lemma upload_trace_result:
  "map (\<lambda>(u, s). (u, step s, map file_name (files s), final_price (data s)))
     (run_events 1 upload_trace [])
   = [(7, ''order_files'', [''a'', ''b'', ''c'', ''d'', ''e''], Some 66)]"
  by (simp add: run_defs)


lemma sixth_upload_refused:
  "fst (handle_event sample_db 1 True 12 7 (document_message ''f'')
          (run_events 1 (butlast upload_trace) []))
     = LimitReached"
  by (simp add: run_defs)

text \<open>
  Claim C4. In every store the program can reach, no session has more than
  \<open>MAX_FILES_PER_ORDER\<close> (5) files, and every event keeps that bound. \<open>add_file\<close> on a
  session that is at the cap returns \<open>False\<close> and leaves the session as it is, and
  \<open>file_handler\<close> answers a session at the cap with the limit message and stores
  nothing.
\<close>

theorem files_never_exceed_cap:
  "(reachable st \<longrightarrow> (\<forall>(u, s) \<in> set st. length (files s) \<le> MAX_FILES_PER_ORDER))
   \<and> (files_bounded st \<longrightarrow>
        files_bounded (snd (handle_event u admin_id delivered now uid ev st)))
   \<and> (length (files s) \<ge> MAX_FILES_PER_ORDER \<longrightarrow>
        add_file now fid fname fsize s = (False, s))
   \<and> (get_session now uid st = (Some s, st1) \<and> step s = ''order_files''
        \<and> length (files s) \<ge> MAX_FILES_PER_ORDER \<longrightarrow>
        file_handler now uid msg st = (LimitReached, st1))"
proof (intro conjI impI)
  assume "reachable st"
  then have "files_bounded st" by (rule files_bounded_reachable)
  then show "\<forall>(u, s) \<in> set st. length (files s) \<le> MAX_FILES_PER_ORDER"
    by (simp add: files_bounded_def)
next
  assume "files_bounded st"
  then show "files_bounded (snd (handle_event u admin_id delivered now uid ev st))"
    by (rule files_bounded_event)
next
  assume "length (files s) \<ge> MAX_FILES_PER_ORDER"
  then show "add_file now fid fname fsize s = (False, s)"
    by (simp add: add_file_def)
next
  assume "get_session now uid st = (Some s, st1) \<and> step s = ''order_files''
        \<and> length (files s) \<ge> MAX_FILES_PER_ORDER"
  then show "file_handler now uid msg st = (LimitReached, st1)"
    by (simp add: file_handler_def)
qed

theorem files_never_exceed_cap_witness:
  "reachable (run_events 1 upload_trace [])
   \<and> map (\<lambda>(u, s). (u, step s, map file_name (files s), final_price (data s)))
        (run_events 1 upload_trace [])
       = [(7, ''order_files'', [''a'', ''b'', ''c'', ''d'', ''e''], Some 66)]
   \<and> files_bounded (run_events 1 upload_trace [])
   \<and> fst (handle_event sample_db 1 True 12 7 (document_message ''f'')
            (run_events 1 (butlast upload_trace) [])) = LimitReached"
proof -
  have r: "reachable (run_events 1 upload_trace [])"
    using reachable_init by (rule reachable_run)
  then have "\<forall>(u, s) \<in> set (run_events 1 upload_trace []). length (files s) \<le> MAX_FILES_PER_ORDER"
    using files_never_exceed_cap [where st = "run_events 1 upload_trace []"] by blast
  then have "files_bounded (run_events 1 upload_trace [])"
    by (simp add: files_bounded_def)
  with r upload_trace_result sixth_upload_refused show ?thesis by blast
qed





end
